theory Spec2Isabelle
  imports Main
begin

section \<open>JavaScript values\<close>

text \<open>
  A JavaScript string is modelled as a \<open>string\<close>: the list of its code units, of which
  the development uses the first 256 (addresses, signatures and method names are ASCII).
  \<open>length\<close> is the source's \<open>.length\<close>. A thrown value is a \<open>js_error\<close>: its
  \<open>message\<close>, and its \<open>code\<close> when it carries an integer one (the errors a wallet backend
  rejects a request with do; \<open>new Error(msg)\<close> does not). A function that may throw returns
  \<open>js_error + 'a\<close>, with \<open>Inl\<close> the thrown value.
\<close>

type_synonym Address = string

type_synonym ChainIdentifier = string

record js_error =
  code :: "int option"
  message :: string

definition Error :: "string \<Rightarrow> js_error" where
  "Error msg = \<lparr>code = None, message = msg\<rparr>"

text \<open>\<open>String.prototype.substr(start, length)\<close> for a start that is not negative.\<close>

definition substr :: "nat \<Rightarrow> nat \<Rightarrow> string \<Rightarrow> string" where
  "substr start len s = take len (drop start s)"

text \<open>\<open>s.substr(-n)\<close>: the last \<open>n\<close> code units (all of \<open>s\<close> when it is shorter).\<close>

definition substr_from_end :: "nat \<Rightarrow> string \<Rightarrow> string" where
  "substr_from_end n s = drop (length s - n) s"

text \<open>
  \<open>String.prototype.toLowerCase\<close> on the code units 0 to 255: the ASCII capitals and the
  capitals of the Latin-1 block (\<open>0xC0\<close> to \<open>0xDE\<close> without the multiplication sign
  \<open>0xD7\<close>) move up by 32; every other code unit stays.
\<close>

definition lowerChar :: "char \<Rightarrow> char" where
  "lowerChar c =
     (let n = (of_char c :: nat) in
      if (65 \<le> n \<and> n \<le> 90) \<or> (192 \<le> n \<and> n \<le> 222 \<and> n \<noteq> 215)
      then char_of (n + 32) else c)"

definition toLowerCase :: "string \<Rightarrow> string" where
  "toLowerCase s = map lowerChar s"

text \<open>
  \<open>parseInt(s, 16)\<close>: leading white space is skipped, then an optional sign, then an
  optional \<open>0x\<close> or \<open>0X\<close>; the longest run of hexadecimal digits that follows is the
  number, and \<open>NaN\<close> (here \<open>None\<close>) when the run is empty. A JavaScript number is
  modelled as \<open>int option\<close>; the source applies \<open>parseInt\<close> to two code units only, where
  the double is that integer.
\<close>

definition isWhiteSpace :: "char \<Rightarrow> bool" where
  "isWhiteSpace c = ((of_char c :: nat) \<in> {9, 10, 11, 12, 13, 32, 160})"

definition hexDigitValue :: "char \<Rightarrow> nat option" where
  "hexDigitValue c =
     (let n = (of_char c :: nat) in
      if 48 \<le> n \<and> n \<le> 57 then Some (n - 48)
      else if 97 \<le> n \<and> n \<le> 102 then Some (n - 87)
      else if 65 \<le> n \<and> n \<le> 70 then Some (n - 55)
      else None)"

definition isHexDigit :: "char \<Rightarrow> bool" where
  "isHexDigit c = (case hexDigitValue c of Some d \<Rightarrow> True | None \<Rightarrow> False)"

definition hexValue :: "string \<Rightarrow> nat" where
  "hexValue ds = foldl (\<lambda>acc c. 16 * acc + (case hexDigitValue c of Some d \<Rightarrow> d | None \<Rightarrow> 0)) 0 ds"

definition parseInt16 :: "string \<Rightarrow> int option" where
  "parseInt16 s =
     (let s1 = dropWhile isWhiteSpace s;
          negative = (take 1 s1 = ''-'');
          s2 = (if take 1 s1 = ''-'' \<or> take 1 s1 = ''+'' then drop 1 s1 else s1);
          s3 = (if take 2 s2 = ''0x'' \<or> take 2 s2 = ''0X'' then drop 2 s2 else s2);
          ds = takeWhile isHexDigit s3
      in if ds = [] then None
         else Some (if negative then - int (hexValue ds) else int (hexValue ds)))"

text \<open>\<open>Number.prototype.toString(16)\<close> on an integer, and on \<open>NaN\<close>.\<close>

definition hexChars :: string where
  "hexChars = ''0123456789abcdef''"

fun toHexDigits :: "nat \<Rightarrow> string" where
  "toHexDigits n =
     (if n < 16 then [hexChars ! n]
      else toHexDigits (n div 16) @ [hexChars ! (n mod 16)])"

declare toHexDigits.simps [simp del]

definition toString16 :: "int option \<Rightarrow> string" where
  "toString16 v =
     (case v of
        None \<Rightarrow> ''NaN''
      | Some i \<Rightarrow> if i < 0 then ''-'' @ toHexDigits (nat (- i)) else toHexDigits (nat i))"

section \<open>Web3EvmProvider: signature normalisation\<close>

text \<open>
  \<open>_reorderSignatureRsvToVrs(signature)\<close>. The length check comes first and throws; then
  \<open>v\<close> is read from the last two code units, raised by 27 when it is below 27, and
  written back in hexadecimal in front of \<open>r\<close> and \<open>s\<close>. (\<open>NaN < 27\<close> is false, so a
  \<open>NaN\<close> stays.)
\<close>

definition reorderSignatureRsvToVrs :: "string \<Rightarrow> js_error + string" where
  "reorderSignatureRsvToVrs signature =
     (if length signature \<noteq> 132
      then Inl (Error ''Expect signature to be a hex thing with a total length of 132 characters (including the '0x' prefix)'')
      else
        let v0 = parseInt16 (substr_from_end 2 signature);
            v = (case v0 of None \<Rightarrow> None | Some i \<Rightarrow> if i < 27 then Some (i + 27) else Some i);
            r = substr 2 64 signature;
            s = substr 66 64 signature
        in Inr (''0x'' @ toString16 v @ r @ s))"

section \<open>Web3EvmProvider: the backend and its requests\<close>

datatype Method =
    eth_requestAccounts
  | personal_sign
  | eth_signTypedData
  | eth_signTypedData_v1
  | eth_signTypedData_v3
  | eth_signTypedData_v4
  | wallet_addEthereumChain
  | wallet_switchEthereumChain

text \<open>
  The object \<open>switchChain\<close> sends with \<open>wallet_addEthereumChain\<close>, and the parameters of a
  request: a string, the \<open>{chainId}\<close> object of a switch, or the object of an add.
  \<open>nativeCurrency\<close> is passed through as it was read, so it is kept as an opaque value.
\<close>

record AddEthereumChainParameter =
  chainId :: string
  rpcUrls :: "string list"
  chainName :: string
  nativeCurrency :: string
  blockExplorerUrls :: "string list"

datatype Param =
    PString string
  | PSwitchChain string
  | PAddChain AddEthereumChainParameter

type_synonym Request = "Method \<times> Param list"

text \<open>The object handed to \<open>web3.eth.sendTransaction\<close>: \<open>{from, to, value, data}\<close>.\<close>

record TransactionObject =
  tx_from :: Address
  tx_to :: string
  tx_value :: string
  tx_data :: string

text \<open>
  The wallet backend behind a provider, as the answers it gives: to a JSON-RPC request
  (\<open>JSONRPC.request\<close> over \<open>web3Provider.sendAsync\<close>), to \<open>web3.eth.getAccounts\<close>, to
  \<open>web3.version.getNetwork\<close>, to reading \<open>window.ethereum?.chainId\<close> (which throws where
  there is no \<open>window\<close>, and is \<open>None\<close> where the property is missing) and to
  \<open>web3.eth.sendTransaction\<close>. Every operation below sends each request at most once, so
  answers that depend on the request alone lose no behaviour.
\<close>

record Web3Backend =
  sendAsync :: "Method \<Rightarrow> Param list \<Rightarrow> js_error + string"
  eth_getAccounts :: "js_error + Address list"
  version_getNetwork :: "js_error + string"
  window_ethereum_chainId :: "js_error + string option"
  eth_sendTransaction :: "TransactionObject \<Rightarrow> js_error + string"

text \<open>\<open>request(method, params)\<close>: the request is recorded in the log of requests issued.\<close>

definition request ::
  "Web3Backend \<Rightarrow> Method \<Rightarrow> Param list \<Rightarrow> Request list \<Rightarrow> Request list \<times> (js_error + string)" where
  "request b m ps log = (log @ [(m, ps)], sendAsync b m ps)"

section \<open>Web3EvmProvider: signTypedData\<close>

datatype ClientSignatureStandard =
    PERSONAL
  | TYPED_DATA_V1
  | TYPED_DATA_V3
  | TYPED_DATA_V4
  | future_added_value

definition typedStandards :: "ClientSignatureStandard list" where
  "typedStandards = [TYPED_DATA_V1, TYPED_DATA_V3, TYPED_DATA_V4]"

fun signatureToMethod :: "ClientSignatureStandard \<Rightarrow> Method" where
  "signatureToMethod PERSONAL = personal_sign"
| "signatureToMethod TYPED_DATA_V1 = eth_signTypedData"
| "signatureToMethod TYPED_DATA_V3 = eth_signTypedData_v3"
| "signatureToMethod TYPED_DATA_V4 = eth_signTypedData_v4"
| "signatureToMethod future_added_value = personal_sign"

text \<open>
  \<open>signTypedData(message, address, options)\<close>; \<open>options\<close> is \<open>None\<close> when the caller
  gives none. The result is the log of requests issued and the value returned or thrown.
\<close>

definition signTypedData ::
  "Web3Backend \<Rightarrow> string \<Rightarrow> Address \<Rightarrow> ClientSignatureStandard option
     \<Rightarrow> Request list \<times> (js_error + string)" where
  "signTypedData b msg addr options =
     (let clientSignatureStandard = (case options of Some st \<Rightarrow> st | None \<Rightarrow> TYPED_DATA_V4) in
      if clientSignatureStandard \<notin> set typedStandards
      then ([], Inl (Error ''Unsupported client signature standard for signing typed data.''))
      else
        (case request b (signatureToMethod clientSignatureStandard) [PString addr, PString msg] [] of
           (log, Inl e) \<Rightarrow> (log, Inl e)
         | (log, Inr signature) \<Rightarrow> (log, reorderSignatureRsvToVrs signature)))"

section \<open>Web3EvmProvider: switchChain\<close>

definition USER_REJECTED_REQUEST_ERROR_CODE :: int where
  "USER_REJECTED_REQUEST_ERROR_CODE = 4001"

definition UNADDED_CHAIN_ERROR_CODE :: int where
  "UNADDED_CHAIN_ERROR_CODE = 4902"

text \<open>
  What \<open>readChainData(chainData)\<close> returns. \<open>networkId\<close> is \<open>None\<close> when the chain's
  metadata has none; \<open>!networkId\<close> also holds for the number 0.
\<close>

record ChainDataRead =
  blockExplorerUrl :: string
  displayName :: string
  publicRpcUrl :: string
  networkId :: "nat option"
  nativeCurrencyOf :: string

text \<open>\<open>web3.toHex\<close> of a network id.\<close>

definition toHex :: "nat \<Rightarrow> string" where
  "toHex n = ''0x'' @ toHexDigits n"

definition addChainParameter :: "string \<Rightarrow> ChainDataRead \<Rightarrow> AddEthereumChainParameter" where
  "addChainParameter cid cd =
     \<lparr>chainId = cid,
      rpcUrls = [publicRpcUrl cd],
      chainName = displayName cd,
      nativeCurrency = nativeCurrencyOf cd,
      blockExplorerUrls = [blockExplorerUrl cd]\<rparr>"

definition switchChain :: "Web3Backend \<Rightarrow> ChainDataRead \<Rightarrow> Request list \<times> (js_error + unit)" where
  "switchChain b cd =
     (case networkId cd of
        None \<Rightarrow> ([], Inl (Error ''Chain network ID was not found''))
      | Some n \<Rightarrow>
          if n = 0 then ([], Inl (Error ''Chain network ID was not found''))
          else
            (case request b wallet_switchEthereumChain [PSwitchChain (toHex n)] [] of
               (log, Inr ok) \<Rightarrow> (log, Inr ())
             | (log, Inl switchError) \<Rightarrow>
                 if code switchError = Some UNADDED_CHAIN_ERROR_CODE then
                   (case request b wallet_addEthereumChain [PAddChain (addChainParameter (toHex n) cd)] log of
                      (log', Inr ok) \<Rightarrow> (log', Inr ())
                    | (log', Inl err) \<Rightarrow> (log', Inl (Error ''There was a problem adding the network'')))
                 else if code switchError = Some USER_REJECTED_REQUEST_ERROR_CODE then (log, Inr ())
                 else (log, Inl (Error ''There was a problem switching the network''))))"

section \<open>Web3EvmProvider: accounts and transactions\<close>

record AccountKey =
  address :: Address
  chain :: ChainIdentifier

text \<open>
  \<open>getChain()\<close>. Any throw inside it is caught and gives \<open>undefined\<close>. The table
  \<open>CHAIN_IDENTIFIER_BY_NETWORK_ID\<close> is a constant declared outside these sources; it is
  a parameter here, indexed by the raw id before \<open>Number\<close> is applied to it, and gives
  \<open>None\<close> for an id it does not hold.
\<close>

definition getChain :: "(string \<Rightarrow> ChainIdentifier option) \<Rightarrow> Web3Backend \<Rightarrow> ChainIdentifier option" where
  "getChain CHAIN_IDENTIFIER_BY_NETWORK_ID b =
     (case window_ethereum_chainId b of
        Inl e \<Rightarrow> None
      | Inr windowEthereumChainId \<Rightarrow>
          (case version_getNetwork b of
             Inl e \<Rightarrow> None
           | Inr netId \<Rightarrow>
               CHAIN_IDENTIFIER_BY_NETWORK_ID
                 (case windowEthereumChainId of Some c \<Rightarrow> c | None \<Rightarrow> netId)))"

text \<open>
  \<open>mapToAccounts(addresses)\<close>: \<open>chain ? ... : []\<close> tests the chain for truthiness, which
  an undefined chain and the empty string fail.
\<close>

definition mapToAccounts ::
  "(string \<Rightarrow> ChainIdentifier option) \<Rightarrow> Web3Backend \<Rightarrow> Address list \<Rightarrow> AccountKey list" where
  "mapToAccounts tbl b addresses =
     (case getChain tbl b of
        None \<Rightarrow> []
      | Some c \<Rightarrow>
          if c = [] then []
          else map (\<lambda>a. \<lparr>address = toLowerCase a, chain = c\<rparr>) addresses)"

definition getAccounts ::
  "(string \<Rightarrow> ChainIdentifier option) \<Rightarrow> Web3Backend \<Rightarrow> js_error + AccountKey list" where
  "getAccounts tbl b =
     (case eth_getAccounts b of
        Inl e \<Rightarrow> Inl e
      | Inr addresses \<Rightarrow> Inr (mapToAccounts tbl b addresses))"

text \<open>
  The transaction \<open>transact\<close> receives; its \<open>source\<close> is never missing. The source's
  fields \<open>value\<close> and \<open>data\<close> are \<open>amount\<close> and \<open>payload\<close> here.
\<close>

record Transaction =
  source :: Address
  destination :: string
  amount :: string
  payload :: string

definition transact ::
  "(string \<Rightarrow> ChainIdentifier option) \<Rightarrow> Web3Backend \<Rightarrow> Transaction \<Rightarrow> js_error + string" where
  "transact tbl b t =
     (case getAccounts tbl b of
        Inl e \<Rightarrow> Inl e
      | Inr accounts \<Rightarrow>
          if \<not> list_ex (\<lambda>a. address a = source t) accounts
          then Inl (Error (''Not connected to account '' @ source t))
          else eth_sendTransaction b
                 \<lparr>tx_from = source t, tx_to = destination t,
                  tx_value = amount t, tx_data = payload t\<rparr>)"

section \<open>Wallet: accounts, keys and the registry\<close>

text \<open>
  An account object: the fields fetched from the remote account source, and the identity
  of the object holding them. The source compares accounts with \<open>===\<close>, which on objects
  is identity, so every object carries an \<open>oid\<close>, and \<open>===\<close> is equality of the oids.
  Objects are created by the remote fetch and by reading the persisted record; each
  creation takes the next free \<open>oid\<close>. The fields other than the address (image, nickname,
  relay id, flags, user) are never read by the operations below and are kept as one
  opaque value.
\<close>

record AccountFields =
  accountAddress :: Address
  profile :: string

record Account =
  oid :: nat
  content :: AccountFields

type_synonym WALLET_NAME = string

type_synonym AccountKeyHash = string

text \<open>\<open>JSON.stringify\<close> of a string: quoted, with the escapes JSON requires.\<close>

definition jsonEscape :: "char \<Rightarrow> string" where
  "jsonEscape c =
     (let n = (of_char c :: nat) in
      if n = 34 then [CHR 0x5C, CHR 0x22]
      else if n = 92 then [CHR 0x5C, CHR 0x5C]
      else if n = 8 then [CHR 0x5C, CHR ''b'']
      else if n = 12 then [CHR 0x5C, CHR ''f'']
      else if n = 10 then [CHR 0x5C, CHR ''n'']
      else if n = 13 then [CHR 0x5C, CHR ''r'']
      else if n = 9 then [CHR 0x5C, CHR ''t'']
      else if n < 32 then
        [CHR 0x5C, CHR ''u'', CHR ''0'', CHR ''0'', hexChars ! (n div 16), hexChars ! (n mod 16)]
      else [c])"

definition jsonQuote :: "string \<Rightarrow> string" where
  "jsonQuote s = [CHR 0x22] @ concat (map jsonEscape s) @ [CHR 0x22]"

text \<open>\<open>Wallet.toHash(address) = JSON.stringify({ address: address.toLowerCase() })\<close>.\<close>

definition toHash :: "Address \<Rightarrow> AccountKeyHash" where
  "toHash a = ''{'' @ jsonQuote ''address'' @ '':'' @ jsonQuote (toLowerCase a) @ ''}''"

text \<open>The key function the wallet gives its registry: \<open>a => Wallet.toHash(a.address)\<close>.\<close>

definition getKey :: "Account \<Rightarrow> AccountKeyHash" where
  "getKey a = toHash (accountAddress (content a))"

text \<open>
  Modelled from the spec: the class \<open>OrderedSet\<close> of \<open>lib/helpers/array\<close> is not among the
  sources. Section 4.1 gives its contract: an ordered collection keyed by a key function;
  \<open>add\<close> replaces in place when the key exists and appends otherwise; \<open>delete\<close> removes by
  key and does nothing when the key is absent; \<open>find\<close> retrieves by key; \<open>clear\<close> empties;
  \<open>elements\<close> is the ordered sequence. The collection is the list of its elements, and each
  operation returns the new collection. The constructor adds the given elements in order.
\<close>

definition OrderedSet_add :: "('a \<Rightarrow> 'k) \<Rightarrow> 'a \<Rightarrow> 'a list \<Rightarrow> 'a list" where
  "OrderedSet_add key x xs =
     (if list_ex (\<lambda>y. key y = key x) xs
      then map (\<lambda>y. if key y = key x then x else y) xs
      else xs @ [x])"

definition OrderedSet_delete :: "('a \<Rightarrow> 'k) \<Rightarrow> 'k \<Rightarrow> 'a list \<Rightarrow> 'a list" where
  "OrderedSet_delete key k xs = filter (\<lambda>y. key y \<noteq> k) xs"

definition OrderedSet_find :: "('a \<Rightarrow> 'k) \<Rightarrow> 'k \<Rightarrow> 'a list \<Rightarrow> 'a option" where
  "OrderedSet_find key k xs = List.find (\<lambda>y. key y = k) xs"

definition OrderedSet_new :: "('a \<Rightarrow> 'k) \<Rightarrow> 'a list \<Rightarrow> 'a list" where
  "OrderedSet_new key xs = foldl (\<lambda>acc x. OrderedSet_add key x acc) [] xs"

text \<open>A JavaScript \<open>Set\<close> of names, as the list of its members in insertion order.\<close>

definition Set_add :: "'a \<Rightarrow> 'a list \<Rightarrow> 'a list" where
  "Set_add x xs = (if x \<in> set xs then xs else xs @ [x])"

definition Set_delete :: "'a \<Rightarrow> 'a list \<Rightarrow> 'a list" where
  "Set_delete x xs = removeAll x xs"

definition Set_new :: "'a list \<Rightarrow> 'a list" where
  "Set_new xs = foldl (\<lambda>acc x. Set_add x acc) [] xs"

section \<open>Wallet: state and persistence\<close>

text \<open>
  \<open>WalletData\<close>, the persisted record. It is JSON, so it holds the fields of each account
  and no object identity; a field that was \<open>undefined\<close> when written is absent.
\<close>

record WalletData =
  data_accounts :: "AccountFields list"
  data_activeAccount :: "AccountFields option"
  data_installedProviderNames :: "WALLET_NAME list option"

text \<open>What the wallet does to its collaborators, in the order it does it.\<close>

datatype Effect =
    CookieSet WalletData
  | CookieRemove
  | AuthGetValidSession "Account option"
  | Publish
  | TrackConnectWallet AccountKey WALLET_NAME
  | ConsoleInfo string

text \<open>
  The state the wallet's operations read and write: its three fields (\<open>_accounts\<close> as the
  elements of the ordered set), the persisted record under the wallet's cookie key
  (\<open>None\<close> when there is none), the names for which the \<open>chain\<close> module holds a provider
  instance, the next free object identity, and the log of effects.
\<close>

record WalletState =
  accounts :: "Account list"
  activeAccount :: "Account option"
  installedProviderNames :: "WALLET_NAME list"
  cookie :: "WalletData option"
  providers :: "WALLET_NAME list"
  nextOid :: nat
  effects :: "Effect list"

definition isSet :: "'a option \<Rightarrow> bool" where
  "isSet x = (case x of None \<Rightarrow> False | Some y \<Rightarrow> True)"

text \<open>
  Modelled from the spec: the class \<open>Cookie\<close> of \<open>lib/cookie\<close> is not among the sources.
  Section 6 gives its contract: one keyed blob holding
  \<open>{accounts, activeAccount, installedProviderNames}\<close> as JSON; \<open>set\<close> writes it, \<open>remove\<close>
  deletes it, \<open>get\<close> reads it back, and gives \<open>undefined\<close> when there is none. Writing
  serialises the objects, which \<open>toData\<close> does for the wallet's fields; reading parses the
  text, which creates a new object for every account in it.
\<close>

definition toData :: "WalletState \<Rightarrow> WalletData" where
  "toData w =
     \<lparr>data_accounts = map content (accounts w),
      data_activeAccount = map_option content (activeAccount w),
      data_installedProviderNames = Some (installedProviderNames w)\<rparr>"

definition Cookie_set :: "WalletData \<Rightarrow> WalletState \<Rightarrow> WalletState" where
  "Cookie_set d w = w\<lparr>cookie := Some d, effects := effects w @ [CookieSet d]\<rparr>"

definition Cookie_remove :: "WalletState \<Rightarrow> WalletState" where
  "Cookie_remove w = w\<lparr>cookie := None, effects := effects w @ [CookieRemove]\<rparr>"

text \<open>The record as \<open>get\<close> returns it: parsed, with an object for every account.\<close>

record WalletDataParsed =
  parsed_accounts :: "Account list"
  parsed_activeAccount :: "Account option"
  parsed_installedProviderNames :: "WALLET_NAME list option"

definition newObjects :: "nat \<Rightarrow> AccountFields list \<Rightarrow> Account list" where
  "newObjects n fs = map (\<lambda>(i, f). \<lparr>oid = i, content = f\<rparr>) (zip [n ..< n + length fs] fs)"

definition Cookie_get :: "WalletState \<Rightarrow> WalletState \<times> WalletDataParsed option" where
  "Cookie_get w =
     (case cookie w of
        None \<Rightarrow> (w, None)
      | Some d \<Rightarrow>
          let n1 = nextOid w + length (data_accounts d);
              n2 = (if isSet (data_activeAccount d) then n1 + 1 else n1)
          in (w\<lparr>nextOid := n2\<rparr>,
              Some \<lparr>parsed_accounts = newObjects (nextOid w) (data_accounts d),
                    parsed_activeAccount =
                      map_option (\<lambda>f. \<lparr>oid = n1, content = f\<rparr>) (data_activeAccount d),
                    parsed_installedProviderNames = data_installedProviderNames d\<rparr>))"

text \<open>
  \<open>save()\<close>. It is declared \<open>async\<close> but awaits nothing: its body runs when it is called,
  and a caller sees no exception of it.
\<close>

definition save :: "WalletState \<Rightarrow> WalletState" where
  "save w =
     (let w1 =
        (if isSet (activeAccount w) \<or> 0 < length (accounts w) \<or> 0 < length (installedProviderNames w)
         then Cookie_set (toData w) w
         else Cookie_remove w)
      in w1\<lparr>effects := effects w1 @ [AuthGetValidSession (activeAccount w), Publish]\<rparr>)"

text \<open>
  \<open>load()\<close>, which the constructor calls: the three fields are set from the record read,
  each to its empty value when there is no record (\<open>data?.accounts\<close> and the like).
\<close>

definition load :: "WalletState \<Rightarrow> WalletState" where
  "load w =
     (case Cookie_get w of
        (w1, d) \<Rightarrow>
          w1\<lparr>accounts :=
                OrderedSet_new getKey (case d of None \<Rightarrow> [] | Some p \<Rightarrow> parsed_accounts p),
              activeAccount := (case d of None \<Rightarrow> None | Some p \<Rightarrow> parsed_activeAccount p),
              installedProviderNames :=
                Set_new (case d of
                           None \<Rightarrow> []
                         | Some p \<Rightarrow>
                             (case parsed_installedProviderNames p of
                                None \<Rightarrow> [] | Some ns \<Rightarrow> ns))\<rparr>)"

section \<open>Wallet: the operations on accounts\<close>

text \<open>
  The constants of \<open>constants\<close> and \<open>constants/testnet\<close>, the remote account source and the
  provider factory are outside these sources; the operations take them as parameters.
  \<open>remoteAccount\<close> answers a fetch made while no other is in flight; \<open>install\<close>, which has
  several in flight, takes the answer to each of its fetches as a parameter of its own.
  A provider, as \<open>install\<close> uses it, is the outcome of its \<open>connect()\<close> and of its
  \<open>getAccounts()\<close>.
\<close>

record Provider =
  provider_connect :: "js_error + unit"
  provider_getAccounts :: "js_error + AccountKey list"

record Env =
  IS_TESTNET :: bool
  TESTNET_CHAIN_IDENTIFIERS :: "ChainIdentifier list"
  MAINNET_CHAIN_IDENTIFIERS :: "ChainIdentifier list"
  MAINNET_TO_TESTNET_CHAIN_IDENTIFIERS :: "ChainIdentifier \<Rightarrow> ChainIdentifier option"
  TESTNET_TO_MAINNET_CHAIN_IDENTIFIERS :: "ChainIdentifier \<Rightarrow> ChainIdentifier option"
  CHAIN_IDENTIFIERS_TO_NAMES :: "ChainIdentifier \<Rightarrow> string"
  remoteAccount :: "Address \<Rightarrow> js_error + AccountFields option"
  providerFactory :: "WALLET_NAME \<Rightarrow> Provider option"

text \<open>\<open>Wallet.getAccount(address)\<close>: a fetched account is a new object.\<close>

definition getAccount :: "Env \<Rightarrow> Address \<Rightarrow> WalletState \<Rightarrow> WalletState \<times> (js_error + Account option)" where
  "getAccount env a w =
     (case remoteAccount env a of
        Inl e \<Rightarrow> (w, Inl e)
      | Inr None \<Rightarrow> (w, Inr None)
      | Inr (Some f) \<Rightarrow> (w\<lparr>nextOid := nextOid w + 1\<rparr>, Inr (Some \<lparr>oid = nextOid w, content = f\<rparr>)))"

definition find_account :: "AccountKey \<Rightarrow> WalletState \<Rightarrow> Account option" where
  "find_account k w = OrderedSet_find getKey (toHash (address k)) (accounts w)"

definition add :: "Env \<Rightarrow> AccountKey \<Rightarrow> WalletState \<Rightarrow> WalletState \<times> (js_error + Account option)" where
  "add env k w =
     (if IS_TESTNET env \<noteq> (chain k \<in> set (TESTNET_CHAIN_IDENTIFIERS env))
      then (w\<lparr>effects := effects w @ [ConsoleInfo (''Incompatible test network: '' @ chain k)]\<rparr>, Inr None)
      else
        (case find_account k w of
           Some account \<Rightarrow> (w, Inr (Some account))
         | None \<Rightarrow>
             (case getAccount env (address k) w of
                (w1, Inl e) \<Rightarrow> (w1, Inl e)
              | (w1, Inr None) \<Rightarrow> (w1, Inr None)
              | (w1, Inr (Some newAccount)) \<Rightarrow>
                  let w2 = w1\<lparr>accounts := OrderedSet_add getKey newAccount (accounts w1)\<rparr>;
                      w3 = (if isSet (activeAccount w2) then w2 else w2\<lparr>activeAccount := Some newAccount\<rparr>)
                  in (save w3, Inr (Some newAccount)))))"

definition select :: "Env \<Rightarrow> AccountKey \<Rightarrow> WalletState \<Rightarrow> WalletState \<times> (js_error + Account option)" where
  "select env k w =
     (case add env k w of
        (w1, Inl e) \<Rightarrow> (w1, Inl e)
      | (w1, Inr None) \<Rightarrow> (w1, Inr None)
      | (w1, Inr (Some account)) \<Rightarrow> (save (w1\<lparr>activeAccount := Some account\<rparr>), Inr (Some account)))"

text \<open>\<open>delete(key)\<close>: \<open>this.activeAccount === account\<close> compares the two objects' identities.\<close>

definition delete :: "AccountKey \<Rightarrow> WalletState \<Rightarrow> WalletState" where
  "delete k w =
     (case find_account k w of
        None \<Rightarrow> w
      | Some account \<Rightarrow>
          let w1 = w\<lparr>accounts := OrderedSet_delete getKey (toHash (address k)) (accounts w)\<rparr>;
              w2 = (if (case activeAccount w1 of None \<Rightarrow> False | Some a \<Rightarrow> oid a = oid account)
                    then w1\<lparr>activeAccount := None\<rparr> else w1)
          in save w2)"

definition clear :: "WalletState \<Rightarrow> WalletState" where
  "clear w = save (w\<lparr>activeAccount := None, accounts := [], installedProviderNames := []\<rparr>)"

text \<open>
  The invariant of the active account: when it is set, the registry holds an entry
  under its key.
\<close>

definition active_in_registry :: "WalletState \<Rightarrow> bool" where
  "active_in_registry w =
     (case activeAccount w of
        None \<Rightarrow> True
      | Some a \<Rightarrow> isSet (OrderedSet_find getKey (getKey a) (accounts w)))"

section \<open>Wallet: install\<close>

text \<open>
  \<open>install\<close> calls \<open>this.select(firstAccount)\<close> without awaiting it, and then awaits
  \<open>Promise.all(accounts.map(this.add))\<close>. Every one of these calls runs at once up to its
  first suspension, the fetch of \<open>Wallet.getAccount\<close>, so all the fetches are begun before any
  of them is answered, and the first account may be fetched twice. \<open>add\<close> is therefore split
  where it suspends: \<open>add_start\<close> is the part before the fetch, \<open>add_resume\<close> the part that
  runs when the fetch is answered. \<open>select_resume\<close> is what \<open>select\<close> does once its \<open>add\<close>
  has settled; a rejection of \<open>select\<close> reaches no \<open>catch\<close>.
\<close>

datatype AddStart =
    Done "Account option"
  | Fetching Address

definition add_start :: "Env \<Rightarrow> AccountKey \<Rightarrow> WalletState \<Rightarrow> WalletState \<times> AddStart" where
  "add_start env k w =
     (if IS_TESTNET env \<noteq> (chain k \<in> set (TESTNET_CHAIN_IDENTIFIERS env))
      then (w\<lparr>effects := effects w @ [ConsoleInfo (''Incompatible test network: '' @ chain k)]\<rparr>, Done None)
      else
        (case find_account k w of
           Some account \<Rightarrow> (w, Done (Some account))
         | None \<Rightarrow> (w, Fetching (address k))))"

definition add_resume ::
  "js_error + AccountFields option \<Rightarrow> WalletState \<Rightarrow> WalletState \<times> (js_error + Account option)" where
  "add_resume answer w =
     (case answer of
        Inl e \<Rightarrow> (w, Inl e)
      | Inr None \<Rightarrow> (w, Inr None)
      | Inr (Some f) \<Rightarrow>
          let newAccount = \<lparr>oid = nextOid w, content = f\<rparr>;
              w1 = w\<lparr>nextOid := nextOid w + 1\<rparr>;
              w2 = w1\<lparr>accounts := OrderedSet_add getKey newAccount (accounts w1)\<rparr>;
              w3 = (if isSet (activeAccount w2) then w2 else w2\<lparr>activeAccount := Some newAccount\<rparr>)
          in (save w3, Inr (Some newAccount)))"

definition select_resume :: "js_error + Account option \<Rightarrow> WalletState \<Rightarrow> WalletState" where
  "select_resume res w =
     (case res of
        Inl e \<Rightarrow> w
      | Inr None \<Rightarrow> w
      | Inr (Some account) \<Rightarrow> save (w\<lparr>activeAccount := Some account\<rparr>))"

text \<open>
  A fetch in flight: its number in the order the fetches were begun, the address asked
  for, and the call that waits for it.
\<close>

datatype Owner = OfSelect | OfPromiseAll

type_synonym Fetch = "nat \<times> Address \<times> Owner"

text \<open>
  \<open>accounts.map(this.add)\<close>: each \<open>add\<close> is run to its suspension, in list order; \<open>n\<close> is the
  number of the next fetch.
\<close>

fun startAdds :: "Env \<Rightarrow> AccountKey list \<Rightarrow> nat \<Rightarrow> WalletState \<Rightarrow> WalletState \<times> Fetch list" where
  "startAdds env [] n w = (w, [])"
| "startAdds env (k # ks) n w =
     (case add_start env k w of
        (w1, Done r) \<Rightarrow> startAdds env ks n w1
      | (w1, Fetching a) \<Rightarrow>
          (case startAdds env ks (n + 1) w1 of
             (w2, ps) \<Rightarrow> (w2, (n, a, OfPromiseAll) # ps)))"

text \<open>
  \<open>if (firstAccount) { this.select(firstAccount); trackConnectWallet(...) }\<close>: the \<open>add\<close>
  inside \<open>select\<close> is run to its suspension, then the tracking call is made.
\<close>

definition startSelect ::
  "Env \<Rightarrow> WALLET_NAME \<Rightarrow> AccountKey list \<Rightarrow> WalletState \<Rightarrow> WalletState \<times> AddStart option" where
  "startSelect env walletName accountsInNetwork w =
     (case accountsInNetwork of
        [] \<Rightarrow> (w, None)
      | firstAccount # rest \<Rightarrow>
          (case add_start env firstAccount w of
             (ws, st) \<Rightarrow>
               (ws\<lparr>effects := effects ws @ [TrackConnectWallet firstAccount walletName]\<rparr>, Some st)))"

text \<open>
  Modelled from the spec: \<open>chain.addProvider\<close> and \<open>chain.deleteProvider\<close> of
  \<open>lib/chain/chain\<close> are not among the sources. By sections 4.5 and 6, \<open>addProvider\<close> asks
  the factory for an instance for the name, which may be unavailable, and keeps it;
  \<open>deleteProvider\<close> releases the instance kept for the name.
\<close>

definition chain_addProvider :: "Env \<Rightarrow> WALLET_NAME \<Rightarrow> WalletState \<Rightarrow> WalletState \<times> Provider option" where
  "chain_addProvider env walletName w =
     (case providerFactory env walletName of
        None \<Rightarrow> (w, None)
      | Some p \<Rightarrow> (w\<lparr>providers := Set_add walletName (providers w)\<rparr>, Some p))"

definition chain_deleteProvider :: "WALLET_NAME \<Rightarrow> WalletState \<Rightarrow> WalletState" where
  "chain_deleteProvider walletName w = w\<lparr>providers := Set_delete walletName (providers w)\<rparr>"

text \<open>
  The two ways \<open>install\<close> ends once it has accounts: the statements after the awaited
  \<open>Promise.all\<close>, and the \<open>catch\<close> block (which then rethrows).
\<close>

definition install_continue :: "WALLET_NAME \<Rightarrow> WalletState \<Rightarrow> WalletState" where
  "install_continue walletName w =
     save (w\<lparr>installedProviderNames := Set_add walletName (installedProviderNames w)\<rparr>)"

definition install_catch :: "WALLET_NAME \<Rightarrow> WalletState \<Rightarrow> WalletState" where
  "install_catch walletName w =
     (let w1 = chain_deleteProvider walletName w;
          w2 = w1\<lparr>installedProviderNames := Set_delete walletName (installedProviderNames w1)\<rparr>
      in save w2)"

text \<open>
  The registration under way: the wallet, the fetches in flight, and how \<open>install\<close> has
  settled (\<open>None\<close> while \<open>Promise.all\<close> is pending).
\<close>

record Registration =
  reg_wallet :: WalletState
  reg_pending :: "Fetch list"
  reg_outcome :: "(js_error + unit) option"

text \<open>
  \<open>Promise.all\<close> resolves once none of its \<open>add\<close> calls waits for a fetch; \<open>install\<close> then
  continues.
\<close>

definition settleAll :: "WALLET_NAME \<Rightarrow> Registration \<Rightarrow> Registration" where
  "settleAll walletName r =
     (if reg_outcome r = None \<and> \<not> list_ex (\<lambda>p. snd (snd p) = OfPromiseAll) (reg_pending r)
      then r\<lparr>reg_wallet := install_continue walletName (reg_wallet r),
             reg_outcome := Some (Inr ())\<rparr>
      else r)"

text \<open>
  The answer to fetch \<open>i\<close> arrives. The \<open>add\<close> that waits for it resumes. When that \<open>add\<close>
  belongs to \<open>select\<close>, \<open>select\<close> goes on, and its rejection is lost. When it belongs to
  \<open>Promise.all\<close>: the first rejection rejects \<open>Promise.all\<close>, and the \<open>catch\<close> block runs
  and rethrows; a later rejection changes nothing; a result may be the last one
  \<open>Promise.all\<close> waited for. The answers arrive one at a time, and what one answer sets
  going runs to its end before the next arrives. (A number that no fetch in flight has
  is ignored.)
\<close>

definition deliver ::
  "(nat \<Rightarrow> Address \<Rightarrow> js_error + AccountFields option) \<Rightarrow> WALLET_NAME \<Rightarrow> nat
     \<Rightarrow> Registration \<Rightarrow> Registration" where
  "deliver remote walletName i r =
     (case List.find (\<lambda>p. fst p = i) (reg_pending r) of
        None \<Rightarrow> r
      | Some (j, a, own) \<Rightarrow>
          (case add_resume (remote i a) (reg_wallet r) of
             (w1, res) \<Rightarrow>
               let r1 = r\<lparr>reg_pending := filter (\<lambda>p. fst p \<noteq> i) (reg_pending r)\<rparr> in
               (case own of
                  OfSelect \<Rightarrow> r1\<lparr>reg_wallet := select_resume res w1\<rparr>
                | OfPromiseAll \<Rightarrow>
                    (case res of
                       Inl e \<Rightarrow>
                         if reg_outcome r = None
                         then r1\<lparr>reg_wallet := install_catch walletName w1,
                                 reg_outcome := Some (Inl e)\<rparr>
                         else r1\<lparr>reg_wallet := w1\<rparr>
                     | Inr x \<Rightarrow> settleAll walletName (r1\<lparr>reg_wallet := w1\<rparr>)))))"

text \<open>
  The body of \<open>if (accounts.length) { ... }\<close> after the guidance check. \<open>remote i a\<close> is the
  answer of the remote account source to fetch \<open>i\<close>, which asks for address \<open>a\<close>; \<open>order\<close>
  is the order in which answers arrive, and the fetches it leaves out are answered after
  it, in the order they were begun. When the \<open>add\<close> inside \<open>select\<close> found the account
  without a fetch, \<open>select\<close> goes on as soon as \<open>install\<close> suspends, before anything else.
\<close>

definition registerAccounts ::
  "Env \<Rightarrow> (nat \<Rightarrow> Address \<Rightarrow> js_error + AccountFields option) \<Rightarrow> nat list
     \<Rightarrow> WALLET_NAME \<Rightarrow> AccountKey list \<Rightarrow> WalletState \<Rightarrow> Registration" where
  "registerAccounts env remote order walletName accs w =
     (let accountsInNetwork =
            filter (\<lambda>a. IS_TESTNET env = (chain a \<in> set (TESTNET_CHAIN_IDENTIFIERS env))) accs
      in
      (case startSelect env walletName accountsInNetwork w of
         (w1, sel) \<Rightarrow>
           let selPending = (case sel of
                               Some (Fetching a) \<Rightarrow> [(0, a, OfSelect)]
                             | Some (Done res) \<Rightarrow> []
                             | None \<Rightarrow> [])
           in
           (case startAdds env accs (length selPending) w1 of
              (w2, ps) \<Rightarrow>
                let w3 = (case sel of
                            Some (Done res) \<Rightarrow> select_resume (Inr res) w2
                          | Some (Fetching a) \<Rightarrow> w2
                          | None \<Rightarrow> w2);
                    r0 = settleAll walletName
                           \<lparr>reg_wallet = w3, reg_pending = selPending @ ps, reg_outcome = None\<rparr>
                in foldl (\<lambda>r i. deliver remote walletName i r) r0
                     (order @ [0 ..< length (selPending @ ps)]))))"

text \<open>A chain identifier or \<open>undefined\<close> in a condition: true for a string that is not empty.\<close>

definition truthy :: "string option \<Rightarrow> bool" where
  "truthy x = (case x of None \<Rightarrow> False | Some s \<Rightarrow> 0 < length s)"

text \<open>
  The guidance check of \<open>install\<close>: the chain to name in the error, when there is one.
\<close>

definition appropriateChain :: "Env \<Rightarrow> AccountKey list \<Rightarrow> ChainIdentifier option" where
  "appropriateChain env accs =
     (case accs of
        [] \<Rightarrow> None
      | firstKey # rest \<Rightarrow>
          let connectedChain = chain firstKey;
              accountsInNetwork =
                filter (\<lambda>a. IS_TESTNET env = (chain a \<in> set (TESTNET_CHAIN_IDENTIFIERS env))) accs
          in if length accs \<noteq> length accountsInNetwork \<and> truthy (Some connectedChain)
             then (if connectedChain \<in> set (MAINNET_CHAIN_IDENTIFIERS env)
                   then MAINNET_TO_TESTNET_CHAIN_IDENTIFIERS env connectedChain
                   else TESTNET_TO_MAINNET_CHAIN_IDENTIFIERS env connectedChain)
             else None)"

text \<open>
  \<open>install(walletName)\<close>. The result is the state once every fetch has been answered, and
  how the call settled: \<open>Inr ()\<close> when it resolved, \<open>Inl e\<close> when it threw \<open>e\<close>. An exception
  of \<open>connect\<close>, of \<open>getAccounts\<close> or of the guidance check is caught where it is thrown;
  a rejection of \<open>Promise.all\<close> is caught when it happens, while other fetches may still
  be in flight.
\<close>

definition install ::
  "Env \<Rightarrow> (nat \<Rightarrow> Address \<Rightarrow> js_error + AccountFields option) \<Rightarrow> nat list
     \<Rightarrow> WALLET_NAME \<Rightarrow> WalletState \<Rightarrow> WalletState \<times> (js_error + unit) option" where
  "install env remote order walletName w =
     (case chain_addProvider env walletName w of
        (w0, None) \<Rightarrow> (w0, Some (Inr ()))
      | (w0, Some p) \<Rightarrow>
          (case provider_connect p of
             Inl e \<Rightarrow> (install_catch walletName w0, Some (Inl e))
           | Inr u \<Rightarrow>
               (case provider_getAccounts p of
                  Inl e \<Rightarrow> (install_catch walletName w0, Some (Inl e))
                | Inr accs \<Rightarrow>
                    if 0 < length accs then
                      (if truthy (appropriateChain env accs)
                       then (install_catch walletName w0,
                             Some (Inl (Error (''Please connect to the ''
                                    @ CHAIN_IDENTIFIERS_TO_NAMES env
                                        (case appropriateChain env accs of Some c \<Rightarrow> c | None \<Rightarrow> [])
                                    @ '' network.''))))
                       else
                         (let r = registerAccounts env remote order walletName accs w0
                          in (reg_wallet r, reg_outcome r)))
                    else (w0, Some (Inr ())))))"

text \<open>What \<open>save\<close> leaves under the cookie key for a state.\<close>

definition persisted :: "WalletState \<Rightarrow> WalletData option" where
  "persisted w =
     (if isSet (activeAccount w) \<or> 0 < length (accounts w) \<or> 0 < length (installedProviderNames w)
      then Some (toData w) else None)"

text \<open>
  After a failed \<open>install\<close>: the name is neither among the installed provider names nor
  among the provider instances held, and the persisted record is the one \<open>save\<close> writes for
  the state.
\<close>

definition rolled_back :: "WALLET_NAME \<Rightarrow> WalletState \<Rightarrow> bool" where
  "rolled_back walletName w =
     (walletName \<notin> set (installedProviderNames w) \<and> walletName \<notin> set (providers w)
      \<and> cookie w = persisted w)"

text \<open>
  What the deliveries keep true of a registration: the fetches in flight have distinct
  numbers; \<open>install\<close> is unsettled only while a fetch of \<open>Promise.all\<close> is in flight, and has
  resolved only when none is. \<open>rejection_pending\<close>: a fetch of \<open>Promise.all\<close> in flight will
  be answered with a rejection.
\<close>

definition reg_ok :: "Registration \<Rightarrow> bool" where
  "reg_ok r =
     (distinct (map fst (reg_pending r))
      \<and> (case reg_outcome r of
            None \<Rightarrow> list_ex (\<lambda>p. snd (snd p) = OfPromiseAll) (reg_pending r)
          | Some (Inl e) \<Rightarrow> True
          | Some (Inr u) \<Rightarrow> \<not> list_ex (\<lambda>p. snd (snd p) = OfPromiseAll) (reg_pending r)))"

definition rejection_pending ::
  "(nat \<Rightarrow> Address \<Rightarrow> js_error + AccountFields option) \<Rightarrow> Registration \<Rightarrow> bool" where
  "rejection_pending remote r =
     list_ex (\<lambda>p. snd (snd p) = OfPromiseAll \<and> isl (remote (fst p) (fst (snd p)))) (reg_pending r)"

section \<open>Example inputs\<close>

text \<open>
  Concrete backends and inputs, at which the theorems below are instantiated.
\<close>

definition signature_example :: string where
  "signature_example = ''0x'' @ replicate 64 (CHR ''a'') @ replicate 64 (CHR ''5'') @ ''00''"

definition chainTable_example :: "string \<Rightarrow> ChainIdentifier option" where
  "chainTable_example netId = (if netId = ''1'' then Some ''ETHEREUM'' else None)"

definition backend_example :: Web3Backend where
  "backend_example =
     \<lparr>sendAsync = (\<lambda>m ps. Inr signature_example),
      eth_getAccounts = Inr [''0xAbC1''],
      version_getNetwork = Inr ''1'',
      window_ethereum_chainId = Inr None,
      eth_sendTransaction = (\<lambda>t. Inr ''0x7e57'')\<rparr>"

definition backend_unknown_network :: Web3Backend where
  "backend_unknown_network = backend_example\<lparr>version_getNetwork := Inr ''999''\<rparr>"

definition backend_unadded_chain :: Web3Backend where
  "backend_unadded_chain =
     backend_example
       \<lparr>sendAsync := (\<lambda>m ps. if m = wallet_switchEthereumChain
                              then Inl \<lparr>code = Some 4902, message = ''Unrecognized chain ID''\<rparr>
                              else Inr ''null'')\<rparr>"

definition backend_user_rejected :: Web3Backend where
  "backend_user_rejected =
     backend_example
       \<lparr>sendAsync := (\<lambda>m ps. Inl \<lparr>code = Some 4001, message = ''User rejected the request.''\<rparr>)\<rparr>"

definition chainData_example :: ChainDataRead where
  "chainData_example =
     \<lparr>blockExplorerUrl = ''https://polygonscan.com'',
      displayName = ''Polygon'',
      publicRpcUrl = ''https://rpc-mainnet.maticvigil.com/'',
      networkId = Some 137,
      nativeCurrencyOf = ''MATIC''\<rparr>"

text \<open>
  A mainnet environment whose remote source knows one account and fails for every other
  address, two providers (one whose \<open>getAccounts\<close> throws, one that reports a second
  account the remote source fails for), and two wallet states.
\<close>

definition account_example :: AccountFields where
  "account_example = \<lparr>accountAddress = ''0xabc1'', profile = ''alice''\<rparr>"

definition key_example :: AccountKey where
  "key_example = \<lparr>address = ''0xAbC1'', chain = ''ETHEREUM''\<rparr>"

definition key_unfetchable :: AccountKey where
  "key_unfetchable = \<lparr>address = ''0xdef2'', chain = ''ETHEREUM''\<rparr>"

definition fetch_failed :: js_error where
  "fetch_failed = \<lparr>code = None, message = ''Failed to fetch''\<rparr>"

definition provider_getAccounts_throws :: Provider where
  "provider_getAccounts_throws =
     \<lparr>provider_connect = Inr (),
      provider_getAccounts = Inl \<lparr>code = Some (-32603), message = ''Internal error''\<rparr>\<rparr>"

definition provider_two_accounts :: Provider where
  "provider_two_accounts =
     \<lparr>provider_connect = Inr (),
      provider_getAccounts = Inr [key_example, key_unfetchable]\<rparr>"

definition env_example :: Env where
  "env_example =
     \<lparr>IS_TESTNET = False,
      TESTNET_CHAIN_IDENTIFIERS = [''RINKEBY''],
      MAINNET_CHAIN_IDENTIFIERS = [''ETHEREUM''],
      MAINNET_TO_TESTNET_CHAIN_IDENTIFIERS = (\<lambda>c. if c = ''ETHEREUM'' then Some ''RINKEBY'' else None),
      TESTNET_TO_MAINNET_CHAIN_IDENTIFIERS = (\<lambda>c. if c = ''RINKEBY'' then Some ''ETHEREUM'' else None),
      CHAIN_IDENTIFIERS_TO_NAMES = (\<lambda>c. c),
      remoteAccount = (\<lambda>a. if toLowerCase a = ''0xabc1'' then Inr (Some account_example)
                             else Inl fetch_failed),
      providerFactory = (\<lambda>n. if n = ''MetaMask'' then Some provider_getAccounts_throws
                               else if n = ''WalletConnect'' then Some provider_two_accounts
                               else None)\<rparr>"

definition wallet_empty :: WalletState where
  "wallet_empty =
     \<lparr>accounts = [], activeAccount = None, installedProviderNames = [],
      cookie = None, providers = [], nextOid = 0, effects = []\<rparr>"

definition wallet_returning :: WalletState where
  "wallet_returning = wallet_empty\<lparr>installedProviderNames := [''MetaMask'']\<rparr>"

text \<open>
  A provider that reports the one account, an environment whose factory gives it for the
  name \<open>Portis\<close>, and a remote source that rejects the first fetch and answers every later
  one.
\<close>

definition provider_one_account :: Provider where
  "provider_one_account =
     \<lparr>provider_connect = Inr (), provider_getAccounts = Inr [key_example]\<rparr>"

definition env_one_account :: Env where
  "env_one_account =
     env_example\<lparr>providerFactory := (\<lambda>n. if n = ''Portis'' then Some provider_one_account else None)\<rparr>"

definition remote_first_fetch_fails :: "nat \<Rightarrow> Address \<Rightarrow> js_error + AccountFields option" where
  "remote_first_fetch_fails i a = (if i = 0 then Inl fetch_failed else Inr (Some account_example))"

section \<open>Signature normalisation: theorems\<close>

lemma toHexDigits_27: "toHexDigits 27 = ''1b''"
  by (simp add: toHexDigits.simps hexChars_def)

lemma toHexDigits_28: "toHexDigits 28 = ''1c''"
  by (simp add: toHexDigits.simps hexChars_def)

lemma parseInt16_1b: "parseInt16 ''1b'' = Some 27"
  by (simp add: parseInt16_def isWhiteSpace_def isHexDigit_def hexDigitValue_def hexValue_def)

lemma parseInt16_1c: "parseInt16 ''1c'' = Some 28"
  by (simp add: parseInt16_def isWhiteSpace_def isHexDigit_def hexDigitValue_def hexValue_def)

lemma parseInt16_00: "parseInt16 ''00'' = Some 0"
  by (simp add: parseInt16_def isWhiteSpace_def isHexDigit_def hexDigitValue_def hexValue_def)

lemma parseInt16_01: "parseInt16 ''01'' = Some 1"
  by (simp add: parseInt16_def isWhiteSpace_def isHexDigit_def hexDigitValue_def hexValue_def)

lemma reorder_parts:
  assumes "length r = 64" and "length s = 64" and "length v = 2"
  shows "reorderSignatureRsvToVrs (''0x'' @ r @ s @ v) =
           Inr (''0x'' @ toString16 (case parseInt16 v of None \<Rightarrow> None
                                      | Some i \<Rightarrow> if i < 27 then Some (i + 27) else Some i) @ r @ s)"
  using assms
  by (simp add: reorderSignatureRsvToVrs_def substr_def substr_from_end_def)

text \<open>
  Claim C1. For a signature \<open>0x\<close>, then 64 characters \<open>r\<close>, then 64 characters \<open>s\<close>, then
  two characters \<open>v\<close>, the reorder step returns \<open>0x\<close>, then \<open>v'\<close>, then \<open>r\<close>, then \<open>s\<close>, where
  \<open>v'\<close> is \<open>1b\<close> when \<open>v\<close> is \<open>1b\<close> or \<open>00\<close>, and \<open>1c\<close> when \<open>v\<close> is \<open>1c\<close> or \<open>01\<close>. (That
  \<open>r\<close> and \<open>s\<close> are hexadecimal is not needed.)
\<close>

theorem reorder_rsv_to_vrs:
  assumes "length r = 64" and "length s = 64"
    and "v = ''1b'' \<or> v = ''00'' \<or> v = ''1c'' \<or> v = ''01''"
  shows "reorderSignatureRsvToVrs (''0x'' @ r @ s @ v) =
           Inr (''0x'' @ (if v = ''1b'' \<or> v = ''00'' then ''1b'' else ''1c'') @ r @ s)"
proof -
  have len: "length v = 2" using assms(3) by auto
  have "toString16 (case parseInt16 v of None \<Rightarrow> None
                    | Some i \<Rightarrow> if i < 27 then Some (i + 27) else Some i)
          = (if v = ''1b'' \<or> v = ''00'' then ''1b'' else ''1c'')"
    using assms(3)
    by (auto simp: parseInt16_1b parseInt16_00 parseInt16_1c parseInt16_01
        toString16_def toHexDigits_27 toHexDigits_28)
  then show ?thesis
    using reorder_parts [OF assms(1) assms(2) len] by simp
qed

theorem reorder_rsv_to_vrs_witness:
  "reorderSignatureRsvToVrs
     (''0x'' @ replicate 64 (CHR ''a'') @ replicate 64 (CHR ''5'') @ ''00'')
     = Inr (''0x1b'' @ replicate 64 (CHR ''a'') @ replicate 64 (CHR ''5''))
   \<and> reorderSignatureRsvToVrs
     (''0x'' @ replicate 64 (CHR ''a'') @ replicate 64 (CHR ''5'') @ ''1c'')
     = Inr (''0x1c'' @ replicate 64 (CHR ''a'') @ replicate 64 (CHR ''5''))"
  using reorder_rsv_to_vrs [of "replicate 64 (CHR ''a'')" "replicate 64 (CHR ''5'')" "''00''"]
        reorder_rsv_to_vrs [of "replicate 64 (CHR ''a'')" "replicate 64 (CHR ''5'')" "''1c''"]
  by simp

text \<open>
  Claim C2. For every string whose length is not 132, lengths 131 and 133 among them,
  the reorder step throws the malformed-length error and returns nothing.
\<close>

theorem reorder_malformed_length:
  assumes "length signature \<noteq> 132"
  shows "reorderSignatureRsvToVrs signature =
           Inl (Error ''Expect signature to be a hex thing with a total length of 132 characters (including the '0x' prefix)'')"
  using assms by (simp add: reorderSignatureRsvToVrs_def)

theorem reorder_malformed_length_witness:
  "reorderSignatureRsvToVrs (replicate 131 (CHR ''a'')) =
           Inl (Error ''Expect signature to be a hex thing with a total length of 132 characters (including the '0x' prefix)'')
   \<and> reorderSignatureRsvToVrs (replicate 133 (CHR ''a'')) =
           Inl (Error ''Expect signature to be a hex thing with a total length of 132 characters (including the '0x' prefix)'')"
  using reorder_malformed_length [of "replicate 131 (CHR ''a'')"]
        reorder_malformed_length [of "replicate 133 (CHR ''a'')"]
  by simp

section \<open>signTypedData: theorems\<close>

lemma reorder_signature_example:
  "reorderSignatureRsvToVrs signature_example =
     Inr (''0x1b'' @ replicate 64 (CHR ''a'') @ replicate 64 (CHR ''5''))"
  using reorder_parts [of "replicate 64 (CHR ''a'')" "replicate 64 (CHR ''5'')" "''00''"]
  by (simp add: signature_example_def parseInt16_00 toString16_def toHexDigits_27)

text \<open>
  Claim C3, as stated, fails: with the standard \<open>PERSONAL\<close> the call issues no request
  and throws the unsupported-standard error, although the method table has an entry for
  it. The guard admits the three typed-data standards only.
\<close>

theorem signTypedData_personal_counterexample:
  "signTypedData backend_example ''{}'' ''0xabc1'' (Some PERSONAL) =
     ([], Inl (Error ''Unsupported client signature standard for signing typed data.''))
   \<and> fst (signTypedData backend_example ''{}'' ''0xabc1'' (Some PERSONAL))
        \<noteq> [(personal_sign, [PString ''0xabc1'', PString ''{}''])]"
  by (simp add: signTypedData_def typedStandards_def)

text \<open>
  Claim C3, amended. When the standard is one of the three typed-data versions, the call
  issues exactly one request, to the method mapped to that standard, with the address and
  the message; a rejection of the backend is thrown on, and a signature it answers with is
  put through the reorder step and returned with nothing appended. For the two other
  standards, \<open>PERSONAL\<close> included, the call throws the unsupported-standard error and issues
  no request. Without options the standard is version 4. The three methods are distinct.
\<close>

theorem signTypedData_dispatch:
  fixes b :: Web3Backend
  shows "(st = TYPED_DATA_V1 \<or> st = TYPED_DATA_V3 \<or> st = TYPED_DATA_V4 \<longrightarrow>
            signTypedData b msg addr (Some st) =
              ([(signatureToMethod st, [PString addr, PString msg])],
               (case sendAsync b (signatureToMethod st) [PString addr, PString msg] of
                  Inl e \<Rightarrow> Inl e
                | Inr signature \<Rightarrow> reorderSignatureRsvToVrs signature)))
       \<and> (st = PERSONAL \<or> st = future_added_value \<longrightarrow>
            signTypedData b msg addr (Some st) =
              ([], Inl (Error ''Unsupported client signature standard for signing typed data.'')))
       \<and> signTypedData b msg addr None = signTypedData b msg addr (Some TYPED_DATA_V4)
       \<and> distinct (map signatureToMethod [TYPED_DATA_V1, TYPED_DATA_V3, TYPED_DATA_V4])"
  by (cases st; cases "sendAsync b (signatureToMethod st) [PString addr, PString msg]")
     (simp_all add: signTypedData_def typedStandards_def request_def)

theorem signTypedData_dispatch_witness:
  "signTypedData backend_example ''{}'' ''0xabc1'' (Some TYPED_DATA_V3) =
     ([(eth_signTypedData_v3, [PString ''0xabc1'', PString ''{}''])],
      Inr (''0x1b'' @ replicate 64 (CHR ''a'') @ replicate 64 (CHR ''5'')))
   \<and> signTypedData backend_example ''{}'' ''0xabc1'' (Some future_added_value) =
     ([], Inl (Error ''Unsupported client signature standard for signing typed data.''))"
  using signTypedData_dispatch [of TYPED_DATA_V3 backend_example "''{}''" "''0xabc1''"]
        signTypedData_dispatch [of future_added_value backend_example "''{}''" "''0xabc1''"]
        reorder_signature_example
  by (simp add: backend_example_def)

section \<open>switchChain: theorems\<close>

text \<open>
  Claim C6. When the backend answers the switch request with the code 4902, the requests
  issued are the switch request and then one add-chain request carrying the chain id, the
  rpc url, the display name, the native currency and the explorer url, and no other. The
  call resolves when the add-chain request succeeds and throws
  \<open>There was a problem adding the network\<close> when it fails. (The switch request is issued
  only for a network id that is present and not 0.)
\<close>

theorem switchChain_unadded_chain:
  assumes "networkId cd = Some n" and "n \<noteq> 0"
    and "sendAsync b wallet_switchEthereumChain [PSwitchChain (toHex n)] = Inl switchError"
    and "code switchError = Some 4902"
  shows "fst (switchChain b cd) =
           [(wallet_switchEthereumChain, [PSwitchChain (toHex n)]),
            (wallet_addEthereumChain,
             [PAddChain \<lparr>chainId = toHex n,
                         rpcUrls = [publicRpcUrl cd],
                         chainName = displayName cd,
                         nativeCurrency = nativeCurrencyOf cd,
                         blockExplorerUrls = [blockExplorerUrl cd]\<rparr>])]
       \<and> snd (switchChain b cd) =
           (case sendAsync b wallet_addEthereumChain
                   [PAddChain \<lparr>chainId = toHex n,
                               rpcUrls = [publicRpcUrl cd],
                               chainName = displayName cd,
                               nativeCurrency = nativeCurrencyOf cd,
                               blockExplorerUrls = [blockExplorerUrl cd]\<rparr>] of
              Inr ok \<Rightarrow> Inr ()
            | Inl err \<Rightarrow> Inl (Error ''There was a problem adding the network''))"
  using assms
  by (simp add: switchChain_def request_def addChainParameter_def UNADDED_CHAIN_ERROR_CODE_def
      split: sum.splits)

theorem switchChain_unadded_chain_witness:
  "switchChain backend_unadded_chain chainData_example =
     ([(wallet_switchEthereumChain, [PSwitchChain (toHex 137)]),
       (wallet_addEthereumChain,
        [PAddChain \<lparr>chainId = toHex 137,
                    rpcUrls = [''https://rpc-mainnet.maticvigil.com/''],
                    chainName = ''Polygon'',
                    nativeCurrency = ''MATIC'',
                    blockExplorerUrls = [''https://polygonscan.com'']\<rparr>])],
      Inr ())"
  using switchChain_unadded_chain
          [of chainData_example 137 backend_unadded_chain
              "\<lparr>code = Some 4902, message = ''Unrecognized chain ID''\<rparr>"]
  by (simp add: backend_unadded_chain_def backend_example_def chainData_example_def
      prod_eq_iff)

text \<open>
  Claim C7, as stated, fails at one code other than 4001: on 4902 the call goes on to the
  add-chain request, and resolves when that succeeds, instead of throwing
  \<open>There was a problem switching the network\<close>.
\<close>

theorem switchChain_other_code_counterexample:
  "sendAsync backend_unadded_chain wallet_switchEthereumChain [PSwitchChain (toHex 137)] =
     Inl \<lparr>code = Some 4902, message = ''Unrecognized chain ID''\<rparr>
   \<and> snd (switchChain backend_unadded_chain chainData_example) = Inr ()
   \<and> snd (switchChain backend_unadded_chain chainData_example) \<noteq>
       Inl (Error ''There was a problem switching the network'')"
  by (simp add: switchChain_def request_def backend_unadded_chain_def backend_example_def
      chainData_example_def UNADDED_CHAIN_ERROR_CODE_def)

text \<open>
  Claim C7, amended. When the backend answers the switch request with the code 4001, the
  call resolves and the switch request is the only request issued. For every answer that is
  an error with a code other than 4001 and 4902, or with no code, the call throws
  \<open>There was a problem switching the network\<close>, again after that one request.
\<close>

theorem switchChain_rejected_or_failed:
  assumes "networkId cd = Some n" and "n \<noteq> 0"
    and "sendAsync b wallet_switchEthereumChain [PSwitchChain (toHex n)] = Inl switchError"
  shows "(code switchError = Some 4001 \<longrightarrow>
            switchChain b cd = ([(wallet_switchEthereumChain, [PSwitchChain (toHex n)])], Inr ()))
       \<and> (code switchError \<noteq> Some 4001 \<and> code switchError \<noteq> Some 4902 \<longrightarrow>
            switchChain b cd =
              ([(wallet_switchEthereumChain, [PSwitchChain (toHex n)])],
               Inl (Error ''There was a problem switching the network'')))"
  using assms
  by (simp add: switchChain_def request_def UNADDED_CHAIN_ERROR_CODE_def
      USER_REJECTED_REQUEST_ERROR_CODE_def)

theorem switchChain_rejected_or_failed_witness:
  "switchChain backend_user_rejected chainData_example =
     ([(wallet_switchEthereumChain, [PSwitchChain (toHex 137)])], Inr ())
   \<and> switchChain (backend_example\<lparr>sendAsync := (\<lambda>m ps. Inl \<lparr>code = Some (-32603), message = ''Internal error''\<rparr>)\<rparr>)
        chainData_example =
     ([(wallet_switchEthereumChain, [PSwitchChain (toHex 137)])],
      Inl (Error ''There was a problem switching the network''))"
  using switchChain_rejected_or_failed
          [of chainData_example 137 backend_user_rejected
              "\<lparr>code = Some 4001, message = ''User rejected the request.''\<rparr>"]
        switchChain_rejected_or_failed
          [of chainData_example 137
              "backend_example\<lparr>sendAsync := (\<lambda>m ps. Inl \<lparr>code = Some (-32603), message = ''Internal error''\<rparr>)\<rparr>"
              "\<lparr>code = Some (-32603), message = ''Internal error''\<rparr>"]
  by (simp add: backend_user_rejected_def backend_example_def chainData_example_def)

section \<open>Accounts and transactions: theorems\<close>

lemma toLowerCase_example: "toLowerCase ''0xAbC1'' = ''0xabc1''"
  by code_simp

text \<open>
  Claim C9, at an input where the code departs from it. The backend reports the connected
  address \<open>0xAbC1\<close> on a known network. \<open>mapToAccounts\<close> lower-cases it, and \<open>transact\<close>
  compares the result with the source as given: the very address the backend reported is
  refused as not connected, and only its lower-case spelling is forwarded.
\<close>

theorem transact_mixed_case_source:
  "eth_getAccounts backend_example = Inr [''0xAbC1'']
   \<and> transact chainTable_example backend_example
        \<lparr>source = ''0xAbC1'', destination = ''0xdef2'', amount = ''0x0'', payload = ''0x''\<rparr>
       = Inl (Error ''Not connected to account 0xAbC1'')
   \<and> transact chainTable_example backend_example
        \<lparr>source = ''0xabc1'', destination = ''0xdef2'', amount = ''0x0'', payload = ''0x''\<rparr>
       = Inr ''0x7e57''"
  by (simp add: transact_def getAccounts_def mapToAccounts_def getChain_def
      chainTable_example_def backend_example_def toLowerCase_example)

text \<open>
  Claim C10. When the backend reports a list of addresses and the current network maps to
  no chain identifier, \<open>getAccounts\<close> returns the empty list and does not throw.
\<close>

theorem getAccounts_unknown_network:
  assumes "getChain tbl b = None" and "eth_getAccounts b = Inr addresses"
  shows "getAccounts tbl b = Inr []"
  using assms by (simp add: getAccounts_def mapToAccounts_def)

theorem getAccounts_unknown_network_witness:
  "getChain chainTable_example backend_unknown_network = None
   \<and> eth_getAccounts backend_unknown_network = Inr [''0xAbC1'']
   \<and> getAccounts chainTable_example backend_unknown_network = Inr []"
proof -
  have c: "getChain chainTable_example backend_unknown_network = None"
    by (simp add: getChain_def chainTable_example_def backend_unknown_network_def
        backend_example_def)
  have a: "eth_getAccounts backend_unknown_network = Inr [''0xAbC1'']"
    by (simp add: backend_unknown_network_def backend_example_def)
  show ?thesis
    using c a getAccounts_unknown_network [OF c a] by simp
qed

section \<open>Wallet: theorems\<close>

lemma save_accounts [simp]: "accounts (save w) = accounts w"
  by (simp add: save_def Cookie_set_def Cookie_remove_def Let_def)

lemma save_activeAccount [simp]: "activeAccount (save w) = activeAccount w"
  by (simp add: save_def Cookie_set_def Cookie_remove_def Let_def)

lemma save_installedProviderNames [simp]:
  "installedProviderNames (save w) = installedProviderNames w"
  by (simp add: save_def Cookie_set_def Cookie_remove_def Let_def)

lemma save_providers [simp]: "providers (save w) = providers w"
  by (simp add: save_def Cookie_set_def Cookie_remove_def Let_def)

lemma save_cookie: "cookie (save w) = persisted w"
  by (simp add: save_def Cookie_set_def Cookie_remove_def persisted_def Let_def)

lemma persisted_save: "persisted (save w) = persisted w"
  by (simp add: persisted_def toData_def)

lemma save_effects:
  "effects (save w) =
     effects w @ [if isSet (activeAccount w) \<or> 0 < length (accounts w)
                       \<or> 0 < length (installedProviderNames w)
                  then CookieSet (toData w) else CookieRemove,
                  AuthGetValidSession (activeAccount w), Publish]"
  by (simp add: save_def Cookie_set_def Cookie_remove_def Let_def)

subsection \<open>The active account and the registry\<close>

text \<open>
  \<open>add\<close> keeps the invariant, \<open>select\<close> and \<open>clear\<close> establish it, and \<open>delete\<close> unsets the
  active account when it is the very object the registry holds under the key. When the
  active account is another object with the same key, \<open>delete\<close> removes the entry and
  leaves the active account set.
\<close>

lemma isSet_iff: "isSet x \<longleftrightarrow> x \<noteq> None"
  by (simp add: isSet_def split: option.splits)

lemma OrderedSet_find_isSet:
  "isSet (OrderedSet_find key k xs) \<longleftrightarrow> k \<in> key ` set xs"
  by (auto simp: OrderedSet_find_def isSet_iff find_None_iff)

lemma OrderedSet_find_Some:
  assumes "OrderedSet_find key k xs = Some y"
  shows "key y = k \<and> y \<in> set xs"
  using assms by (auto simp: OrderedSet_find_def find_Some_iff)

lemma OrderedSet_add_keys:
  "key ` set (OrderedSet_add key x xs) = insert (key x) (key ` set xs)"
  by (auto simp: OrderedSet_add_def list_ex_iff image_iff)

lemma OrderedSet_delete_keys:
  "key ` set (OrderedSet_delete key k xs) = key ` set xs - {k}"
  by (auto simp: OrderedSet_delete_def)

lemma active_in_registry_iff:
  "active_in_registry w \<longleftrightarrow>
     (case activeAccount w of None \<Rightarrow> True | Some a \<Rightarrow> getKey a \<in> getKey ` set (accounts w))"
  by (simp add: active_in_registry_def OrderedSet_find_isSet split: option.splits)

lemma active_in_registry_save [simp]:
  "active_in_registry (save w) = active_in_registry w"
  by (simp add: active_in_registry_def cong: option.case_cong)

lemma active_in_registry_effects [simp]:
  "active_in_registry (w\<lparr>effects := es\<rparr>) = active_in_registry w"
  by (simp add: active_in_registry_def cong: option.case_cong)

lemma add_preserves_active_in_registry:
  assumes "active_in_registry w"
  shows "active_in_registry (fst (add env k w))"
  using assms
  by (auto simp: add_def getAccount_def Let_def active_in_registry_iff OrderedSet_add_keys
      isSet_def split: option.splits sum.splits)

lemma add_result_in_registry:
  assumes "add env k w = (w', Inr (Some a))"
  shows "getKey a \<in> getKey ` set (accounts w')"
  using assms
  by (auto simp: add_def getAccount_def Let_def OrderedSet_add_keys find_account_def
      dest!: OrderedSet_find_Some split: option.splits sum.splits if_splits)

lemma select_establishes_active_in_registry:
  assumes "select env k w = (w', Inr (Some a))"
  shows "activeAccount w' = Some a \<and> active_in_registry w'"
proof -
  obtain w1 where a: "add env k w = (w1, Inr (Some a))"
    and w': "w' = save (w1\<lparr>activeAccount := Some a\<rparr>)"
    using assms
    by (cases "add env k w") (auto simp: select_def split: sum.splits option.splits)
  show ?thesis
    using add_result_in_registry [OF a] by (simp add: w' active_in_registry_iff)
qed

lemma clear_active_in_registry: "active_in_registry (clear w)"
  by (simp add: clear_def active_in_registry_def)

lemma delete_same_object_unsets:
  assumes "find_account k w = Some account" and "activeAccount w = Some account"
  shows "activeAccount (delete k w) = None"
  using assms by (simp add: delete_def Let_def)

lemma delete_other_object_keeps:
  assumes "find_account k w = Some account" and "activeAccount w = Some a"
    and "oid a \<noteq> oid account"
  shows "activeAccount (delete k w) = Some a"
    and "find_account k (delete k w) = None"
proof -
  show "activeAccount (delete k w) = Some a"
    using assms by (simp add: delete_def Let_def)
  have "\<not> isSet (find_account k (delete k w))"
    using assms(1)
    by (simp add: delete_def Let_def find_account_def OrderedSet_find_isSet
        OrderedSet_delete_keys)
  then show "find_account k (delete k w) = None"
    by (simp add: isSet_def split: option.splits)
qed

text \<open>
  After any \<open>load\<close>, the active account is an object of its own: its identity differs from
  that of every entry of the registry. So \<open>delete\<close> of a key the registry holds, the active
  account's key among them, never unsets the active account of a freshly loaded wallet.
\<close>

lemma OrderedSet_add_subset:
  "set (OrderedSet_add key x xs) \<subseteq> insert x (set xs)"
  by (auto simp: OrderedSet_add_def)

lemma OrderedSet_fold_subset:
  "set (foldl (\<lambda>acc x. OrderedSet_add key x acc) acc xs) \<subseteq> set acc \<union> set xs"
proof (induction xs arbitrary: acc)
  case Nil
  then show ?case by simp
next
  case (Cons x xs)
  have "set (foldl (\<lambda>acc x. OrderedSet_add key x acc) (OrderedSet_add key x acc) xs)
          \<subseteq> set (OrderedSet_add key x acc) \<union> set xs"
    by (rule Cons.IH)
  also have "\<dots> \<subseteq> insert x (set acc) \<union> set xs"
    using OrderedSet_add_subset [of key x acc] by auto
  finally show ?case by auto
qed

lemma OrderedSet_new_subset: "set (OrderedSet_new key xs) \<subseteq> set xs"
  using OrderedSet_fold_subset [of key "[]" xs] by (simp add: OrderedSet_new_def)

lemma newObjects_oid:
  assumes "x \<in> set (newObjects n fs)"
  shows "n \<le> oid x \<and> oid x < n + length fs"
  using assms by (auto simp: newObjects_def set_zip)

lemma load_active_is_new_object:
  assumes "activeAccount (load w) = Some a" and "x \<in> set (accounts (load w))"
  shows "oid a \<noteq> oid x"
proof -
  obtain d where d: "cookie w = Some d"
    using assms(1) by (cases "cookie w") (auto simp: load_def Cookie_get_def)
  have a: "oid a = nextOid w + length (data_accounts d)"
    using assms(1) d by (auto simp: load_def Cookie_get_def Let_def)
  have "x \<in> set (newObjects (nextOid w) (data_accounts d))"
    using assms(2) d OrderedSet_new_subset [of getKey "newObjects (nextOid w) (data_accounts d)"]
    by (auto simp: load_def Cookie_get_def Let_def)
  then have "oid x < nextOid w + length (data_accounts d)"
    using newObjects_oid by blast
  with a show ?thesis by simp
qed

lemma delete_after_load:
  assumes "activeAccount (load w) = Some a"
    and "find_account k (load w) = Some account"
  shows "activeAccount (delete k (load w)) = Some a"
    and "find_account k (delete k (load w)) = None"
proof -
  have "account \<in> set (accounts (load w))"
    using assms(2) OrderedSet_find_Some [of getKey "toHash (address k)" "accounts (load w)" account]
    by (simp add: find_account_def)
  then have "oid a \<noteq> oid account"
    using load_active_is_new_object [OF assms(1)] by blast
  then show "activeAccount (delete k (load w)) = Some a"
    and "find_account k (delete k (load w)) = None"
    using delete_other_object_keeps [OF assms(2) assms(1)] by simp_all
qed

text \<open>
  Claim C4, at an input where the code departs from it. In a first session the account is
  selected on an empty wallet: it is registered, made active and persisted, and the
  invariant holds; deleting its key there unsets the active account. In the next session
  the constructor loads the persisted record: the active account and the registry's entry
  are now two objects read from the record, and the invariant still holds by key. Deleting
  the active account's key then empties the registry and leaves the active account set:
  \<open>delete\<close> compares the two objects with \<open>===\<close>, where \<open>refresh\<close> compares their keys.
\<close>

theorem delete_after_load_keeps_active:
  "(let s1 = fst (select env_example key_example wallet_empty);
        s2 = load s1;
        s3 = delete key_example s2
    in active_in_registry s1 \<and> active_in_registry s2
       \<and> activeAccount (delete key_example s1) = None
       \<and> isSet (activeAccount s3) \<and> find_account key_example s3 = None
       \<and> accounts s3 = [] \<and> \<not> active_in_registry s3)"
  by code_simp

subsection \<open>install\<close>

text \<open>
  \<open>add\<close>, run alone and awaited, is \<open>add_start\<close> followed by \<open>add_resume\<close> on the answer of
  the remote source, and \<open>select\<close> is \<open>add\<close> followed by \<open>select_resume\<close>. What the \<open>catch\<close>
  block of \<open>install\<close> leaves is kept by everything that arrives later: whenever \<open>install\<close>
  throws, the name is removed, the provider released and the state persisted
  (\<open>install_throw_rolled_back\<close>). An exception of \<open>connect\<close> or of \<open>getAccounts\<close> is thrown
  on by \<open>install\<close>. \<open>install\<close> always settles. When the remote source rejects every fetch
  of the address of an account that \<open>Promise.all\<close> has to fetch, \<open>install\<close> throws
  (\<open>install_awaited_rejection\<close>).
\<close>

lemma add_start_resume:
  "add env k w =
     (case add_start env k w of
        (w1, Done res) \<Rightarrow> (w1, Inr res)
      | (w1, Fetching a) \<Rightarrow> add_resume (remoteAccount env a) w1)"
  by (simp add: add_def add_start_def add_resume_def getAccount_def Let_def
      split: option.splits sum.splits)

lemma select_resume_after_add:
  "fst (select env k w) = (case add env k w of (w1, res) \<Rightarrow> select_resume res w1)"
  by (simp add: select_def select_resume_def split: prod.splits sum.splits option.splits)

lemma add_resume_installedProviderNames [simp]:
  "installedProviderNames (fst (add_resume answer w)) = installedProviderNames w"
  by (simp add: add_resume_def Let_def split: sum.splits option.splits)

lemma add_resume_providers [simp]:
  "providers (fst (add_resume answer w)) = providers w"
  by (simp add: add_resume_def Let_def split: sum.splits option.splits)

lemma add_resume_persisted:
  assumes "cookie w = persisted w"
  shows "cookie (fst (add_resume answer w)) = persisted (fst (add_resume answer w))"
  using assms
  by (simp add: add_resume_def Let_def save_cookie persisted_save split: sum.splits option.splits)

lemma select_resume_installedProviderNames [simp]:
  "installedProviderNames (select_resume res w) = installedProviderNames w"
  by (simp add: select_resume_def split: sum.splits option.splits)

lemma select_resume_providers [simp]:
  "providers (select_resume res w) = providers w"
  by (simp add: select_resume_def split: sum.splits option.splits)

lemma select_resume_persisted:
  assumes "cookie w = persisted w"
  shows "cookie (select_resume res w) = persisted (select_resume res w)"
  using assms
  by (simp add: select_resume_def save_cookie persisted_save split: sum.splits option.splits)

lemma rolled_back_add_resume:
  assumes "rolled_back walletName w"
  shows "rolled_back walletName (fst (add_resume answer w))"
  using assms by (simp add: rolled_back_def add_resume_persisted)

lemma rolled_back_select_resume:
  assumes "rolled_back walletName w"
  shows "rolled_back walletName (select_resume res w)"
  using assms by (simp add: rolled_back_def select_resume_persisted)

lemma rolled_back_install_catch: "rolled_back walletName (install_catch walletName w)"
  by (simp add: rolled_back_def install_catch_def chain_deleteProvider_def Set_delete_def
      Let_def save_cookie persisted_save)

lemma settleAll_outcome_Inl:
  "reg_outcome (settleAll walletName r) = Some (Inl e) \<longleftrightarrow> reg_outcome r = Some (Inl e)"
  by (simp add: settleAll_def)

lemma settleAll_wallet_Inl:
  assumes "reg_outcome r = Some (Inl e)"
  shows "reg_wallet (settleAll walletName r) = reg_wallet r"
  using assms by (simp add: settleAll_def)

lemma settleAll_pending [simp]:
  "reg_pending (settleAll walletName r) = reg_pending r"
  by (simp add: settleAll_def)

lemma deliver_pending:
  "reg_pending (deliver remote walletName i r) = filter (\<lambda>p. fst p \<noteq> i) (reg_pending r)"
proof (cases "List.find (\<lambda>p. fst p = i) (reg_pending r)")
  case None
  then have "\<forall>p \<in> set (reg_pending r). fst p \<noteq> i"
    by (auto simp: find_None_iff)
  then have "filter (\<lambda>p. fst p \<noteq> i) (reg_pending r) = reg_pending r"
    by (simp add: filter_id_conv)
  with None show ?thesis by (simp add: deliver_def)
next
  case (Some p)
  then show ?thesis
    by (auto simp: deliver_def Let_def split: prod.splits Owner.splits sum.splits)
qed

lemma deliver_rolled_back:
  assumes "\<And>e. reg_outcome r = Some (Inl e) \<Longrightarrow> rolled_back walletName (reg_wallet r)"
    and "reg_outcome (deliver remote walletName i r) = Some (Inl e)"
  shows "rolled_back walletName (reg_wallet (deliver remote walletName i r))"
proof (cases "List.find (\<lambda>p. fst p = i) (reg_pending r)")
  case None
  then show ?thesis using assms by (simp add: deliver_def)
next
  case (Some p)
  obtain j a own where p: "p = (j, a, own)" by (cases p) auto
  obtain w1 res where ar: "add_resume (remote i a) (reg_wallet r) = (w1, res)"
    by (cases "add_resume (remote i a) (reg_wallet r)") auto
  have w1: "w1 = fst (add_resume (remote i a) (reg_wallet r))" using ar by simp
  show ?thesis
  proof (cases own)
    case OfSelect
    then have d: "deliver remote walletName i r =
        r\<lparr>reg_pending := filter (\<lambda>p. fst p \<noteq> i) (reg_pending r),
          reg_wallet := select_resume res w1\<rparr>"
      using Some p ar by (simp add: deliver_def Let_def)
    then have "reg_outcome r = Some (Inl e)" using assms(2) by simp
    then have "rolled_back walletName (reg_wallet r)" by (rule assms(1))
    then show ?thesis
      using d w1 by (simp add: rolled_back_add_resume rolled_back_select_resume)
  next
    case OfPromiseAll
    show ?thesis
    proof (cases res)
      case (Inl e')
      show ?thesis
      proof (cases "reg_outcome r = None")
        case True
        then show ?thesis
          using Some p ar OfPromiseAll Inl
          by (simp add: deliver_def Let_def rolled_back_install_catch)
      next
        case False
        then obtain y where "reg_outcome r = Some y" by auto
        then have d: "deliver remote walletName i r =
            r\<lparr>reg_pending := filter (\<lambda>p. fst p \<noteq> i) (reg_pending r), reg_wallet := w1\<rparr>"
          using Some p ar OfPromiseAll Inl by (simp add: deliver_def Let_def)
        then have "reg_outcome r = Some (Inl e)" using assms(2) by simp
        then have "rolled_back walletName (reg_wallet r)" by (rule assms(1))
        then show ?thesis using d w1 by (simp add: rolled_back_add_resume)
      qed
    next
      case (Inr x)
      let ?r1 = "r\<lparr>reg_pending := filter (\<lambda>p. fst p \<noteq> i) (reg_pending r), reg_wallet := w1\<rparr>"
      have d: "deliver remote walletName i r = settleAll walletName ?r1"
        using Some p ar OfPromiseAll Inr by (simp add: deliver_def Let_def)
      then have o: "reg_outcome ?r1 = Some (Inl e)"
        using assms(2) by (simp add: settleAll_outcome_Inl)
      then have "reg_outcome r = Some (Inl e)" by simp
      then have "rolled_back walletName (reg_wallet r)" by (rule assms(1))
      then have "rolled_back walletName (reg_wallet ?r1)"
        using w1 by (simp add: rolled_back_add_resume)
      then show ?thesis
        using d settleAll_wallet_Inl [OF o, of walletName] by simp
    qed
  qed
qed

lemma deliveries_rolled_back:
  assumes "\<And>e. reg_outcome r = Some (Inl e) \<Longrightarrow> rolled_back walletName (reg_wallet r)"
    and "reg_outcome (foldl (\<lambda>r i. deliver remote walletName i r) r arrival) = Some (Inl e)"
  shows "rolled_back walletName (reg_wallet (foldl (\<lambda>r i. deliver remote walletName i r) r arrival))"
  using assms
proof (induction arrival arbitrary: r e)
  case Nil
  then show ?case by simp
next
  case (Cons i arrival)
  have "\<And>e. reg_outcome (deliver remote walletName i r) = Some (Inl e)
          \<Longrightarrow> rolled_back walletName (reg_wallet (deliver remote walletName i r))"
    using Cons.prems(1) by (rule deliver_rolled_back)
  then show ?case
    using Cons.IH [of "deliver remote walletName i r" e] Cons.prems(2) by simp
qed

lemma registerAccounts_rolled_back:
  assumes "reg_outcome (registerAccounts env remote order walletName accs w) = Some (Inl e)"
  shows "rolled_back walletName (reg_wallet (registerAccounts env remote order walletName accs w))"
proof -
  have s: "\<And>r e. reg_outcome r = None \<Longrightarrow>
             reg_outcome (settleAll walletName r) = Some (Inl e) \<Longrightarrow>
             rolled_back walletName (reg_wallet (settleAll walletName r))"
    by (simp add: settleAll_outcome_Inl)
  show ?thesis
    using assms
    by (auto simp: registerAccounts_def Let_def split: prod.splits
        intro!: deliveries_rolled_back s)
qed

lemma install_throw_rolled_back:
  assumes "snd (install env remote order walletName w) = Some (Inl e)"
  shows "rolled_back walletName (fst (install env remote order walletName w))"
  using assms
  by (auto simp: install_def Let_def rolled_back_install_catch registerAccounts_rolled_back
      split: prod.splits option.splits sum.splits if_splits)

lemma install_connect_throws:
  assumes "providerFactory env walletName = Some p" and "provider_connect p = Inl e"
  shows "snd (install env remote order walletName w) = Some (Inl e)"
  using assms by (simp add: install_def chain_addProvider_def)

lemma install_getAccounts_throws:
  assumes "providerFactory env walletName = Some p" and "provider_connect p = Inr u"
    and "provider_getAccounts p = Inl e"
  shows "snd (install env remote order walletName w) = Some (Inl e)"
  using assms by (simp add: install_def chain_addProvider_def)

lemma add_start_accounts [simp]: "accounts (fst (add_start env k w)) = accounts w"
  by (simp add: add_start_def split: option.splits)

lemma startAdds_accounts [simp]: "accounts (fst (startAdds env ks n w)) = accounts w"
proof (induction ks arbitrary: n w)
  case Nil
  then show ?case by simp
next
  case (Cons k ks)
  obtain w1 st where a: "add_start env k w = (w1, st)" by (cases "add_start env k w") auto
  then have w1: "accounts w1 = accounts w"
    using add_start_accounts [of env k w] by simp
  show ?case
  proof (cases st)
    case (Done res)
    then show ?thesis using a w1 Cons.IH [of n w1] by simp
  next
    case (Fetching x)
    obtain w2 ps where s: "startAdds env ks (n + 1) w1 = (w2, ps)"
      by (cases "startAdds env ks (n + 1) w1") auto
    then have "accounts w2 = accounts w1"
      using Cons.IH [of "n + 1" w1] by simp
    then show ?thesis
      using a w1 Fetching s by simp
  qed
qed

lemma startAdds_ids:
  "map fst (snd (startAdds env ks n w)) = [n ..< n + length (snd (startAdds env ks n w))]"
proof (induction ks arbitrary: n w)
  case Nil
  then show ?case by simp
next
  case (Cons k ks)
  obtain w1 st where a: "add_start env k w = (w1, st)" by (cases "add_start env k w") auto
  show ?case
  proof (cases st)
    case (Done res)
    then show ?thesis using a Cons.IH [of n w1] by simp
  next
    case (Fetching x)
    obtain w2 ps where s: "startAdds env ks (n + 1) w1 = (w2, ps)"
      by (cases "startAdds env ks (n + 1) w1") auto
    have ps: "map fst ps = [Suc n ..< Suc n + length ps]"
      using Cons.IH [of "n + 1" w1] s by simp
    have "[n ..< n + Suc (length ps)] = n # [Suc n ..< Suc n + length ps]"
      by (subst upt_rec) simp
    then show ?thesis
      using a Fetching s ps by simp
  qed
qed

lemma startAdds_fetches:
  assumes "k \<in> set ks"
    and "IS_TESTNET env = (chain k \<in> set (TESTNET_CHAIN_IDENTIFIERS env))"
    and "OrderedSet_find getKey (toHash (address k)) (accounts w) = None"
  shows "\<exists>i. (i, address k, OfPromiseAll) \<in> set (snd (startAdds env ks n w))"
  using assms
proof (induction ks arbitrary: n w)
  case Nil
  then show ?case by simp
next
  case (Cons x ks)
  obtain w1 st where a: "add_start env x w = (w1, st)" by (cases "add_start env x w") auto
  then have w1: "accounts w1 = accounts w"
    using add_start_accounts [of env x w] by simp
  show ?case
  proof (cases "x = k")
    case True
    then have "st = Fetching (address k)"
      using a Cons.prems(2,3) by (simp add: add_start_def find_account_def)
    then show ?thesis
      using a True by (auto split: prod.splits)
  next
    case False
    then have k: "k \<in> set ks" using Cons.prems(1) by simp
    show ?thesis
    proof (cases st)
      case (Done res)
      then show ?thesis
        using a w1 Cons.IH [OF k Cons.prems(2), of w1 n] Cons.prems(3) by simp
    next
      case (Fetching y)
      then show ?thesis
        using a w1 Cons.IH [OF k Cons.prems(2), of w1 "n + 1"] Cons.prems(3)
        by (auto split: prod.splits)
    qed
  qed
qed

lemma startSelect_accounts [simp]:
  "accounts (fst (startSelect env walletName ks w)) = accounts w"
proof (cases ks)
  case Nil
  then show ?thesis by (simp add: startSelect_def)
next
  case (Cons k rest)
  obtain ws st where a: "add_start env k w = (ws, st)" by (cases "add_start env k w") auto
  then have "accounts ws = accounts w"
    using add_start_accounts [of env k w] by simp
  then show ?thesis
    using Cons a by (simp add: startSelect_def)
qed

lemma reg_ok_settleAll:
  assumes "distinct (map fst (reg_pending r))" and "reg_outcome r = None"
  shows "reg_ok (settleAll walletName r)"
  using assms by (simp add: reg_ok_def settleAll_def)

lemma find_distinct:
  assumes "distinct (map fst ps)" and "p \<in> set ps" and "List.find (\<lambda>q. fst q = fst p) ps = Some q"
  shows "q = p"
proof -
  have "q \<in> set ps \<and> fst q = fst p"
    using assms(3) by (auto simp: find_Some_iff)
  then show ?thesis
    using assms(1,2) by (meson distinct_map inj_onD)
qed

lemma deliver_cases:
  assumes "List.find (\<lambda>p. fst p = i) (reg_pending r) = Some (j, a, own)"
    and "add_resume (remote i a) (reg_wallet r) = (w1, res)"
  shows "deliver remote walletName i r =
           (let r1 = r\<lparr>reg_pending := filter (\<lambda>p. fst p \<noteq> i) (reg_pending r)\<rparr> in
            case own of
              OfSelect \<Rightarrow> r1\<lparr>reg_wallet := select_resume res w1\<rparr>
            | OfPromiseAll \<Rightarrow>
                (case res of
                   Inl e \<Rightarrow>
                     if reg_outcome r = None
                     then r1\<lparr>reg_wallet := install_catch walletName w1, reg_outcome := Some (Inl e)\<rparr>
                     else r1\<lparr>reg_wallet := w1\<rparr>
                 | Inr x \<Rightarrow> settleAll walletName (r1\<lparr>reg_wallet := w1\<rparr>)))"
  using assms by (simp add: deliver_def Let_def)

lemma deliver_reg_ok:
  assumes "reg_ok r"
  shows "reg_ok (deliver remote walletName i r)"
proof (cases "List.find (\<lambda>p. fst p = i) (reg_pending r)")
  case None
  then show ?thesis using assms by (simp add: deliver_def)
next
  case (Some q)
  obtain j a own where q: "q = (j, a, own)" by (cases q) auto
  obtain w1 res where ar: "add_resume (remote i a) (reg_wallet r) = (w1, res)"
    by (cases "add_resume (remote i a) (reg_wallet r)") auto
  have qin: "q \<in> set (reg_pending r)" and qi: "fst q = i"
    using Some by (auto simp: find_Some_iff)
  have d: "distinct (map fst (reg_pending r))" using assms by (simp add: reg_ok_def)
  have other: "\<And>p. p \<in> set (reg_pending r) \<Longrightarrow> p \<noteq> q \<Longrightarrow> fst p \<noteq> i"
    using d qin qi by (metis distinct_map inj_onD)
  have dist': "distinct (map fst (filter (\<lambda>p. fst p \<noteq> i) (reg_pending r)))"
    using d by (simp add: distinct_map_filter)
  have fq: "List.find (\<lambda>p. fst p = i) (reg_pending r) = Some (j, a, own)"
    using Some q by simp
  note dc = deliver_cases [of i r j a own remote w1 res walletName, OF fq ar]
  show ?thesis
  proof (cases own)
    case OfSelect
    have keep: "list_ex (\<lambda>p. snd (snd p) = OfPromiseAll) (filter (\<lambda>p. fst p \<noteq> i) (reg_pending r))
                  = list_ex (\<lambda>p. snd (snd p) = OfPromiseAll) (reg_pending r)"
    proof -
      have "\<And>p. p \<in> set (reg_pending r) \<Longrightarrow> snd (snd p) = OfPromiseAll \<Longrightarrow> fst p \<noteq> i"
      proof -
        fix p assume p: "p \<in> set (reg_pending r)" "snd (snd p) = OfPromiseAll"
        then have "p \<noteq> q" using q OfSelect by auto
        then show "fst p \<noteq> i" using p(1) by (rule other [rotated])
      qed
      then show ?thesis unfolding list_ex_iff set_filter by blast
    qed
    show ?thesis
      using assms dc OfSelect dist' keep
      by (simp add: reg_ok_def Let_def split: option.splits sum.splits)
  next
    case OfPromiseAll
    show ?thesis
    proof (cases res)
      case (Inl e)
      have sub: "list_ex (\<lambda>p. snd (snd p) = OfPromiseAll) (filter (\<lambda>p. fst p \<noteq> i) (reg_pending r))
                   \<Longrightarrow> list_ex (\<lambda>p. snd (snd p) = OfPromiseAll) (reg_pending r)"
        unfolding list_ex_iff set_filter by blast
      have "list_ex (\<lambda>p. snd (snd p) = OfPromiseAll) (reg_pending r)"
        unfolding list_ex_iff using qin q OfPromiseAll by (intro bexI [of _ q]) simp_all
      then have "reg_outcome r = None \<or> (\<exists>e. reg_outcome r = Some (Inl e))"
        using assms by (auto simp: reg_ok_def split: option.splits sum.splits)
      then show ?thesis
        using dc OfPromiseAll Inl dist'
        by (auto simp: reg_ok_def Let_def)
    next
      case (Inr x)
      let ?r1 = "r\<lparr>reg_pending := filter (\<lambda>p. fst p \<noteq> i) (reg_pending r), reg_wallet := w1\<rparr>"
      have d1: "deliver remote walletName i r = settleAll walletName ?r1"
        using dc OfPromiseAll Inr by (simp add: Let_def)
      have "list_ex (\<lambda>p. snd (snd p) = OfPromiseAll) (reg_pending r)"
        unfolding list_ex_iff using qin q OfPromiseAll by (intro bexI [of _ q]) simp_all
      then have "reg_outcome r = None \<or> (\<exists>e. reg_outcome r = Some (Inl e))"
        using assms by (auto simp: reg_ok_def split: option.splits sum.splits)
      then show ?thesis
      proof
        assume "reg_outcome r = None"
        then show ?thesis
          using d1 dist' reg_ok_settleAll [of ?r1 walletName] by simp
      next
        assume "\<exists>e. reg_outcome r = Some (Inl e)"
        then show ?thesis
          using d1 dist' by (auto simp: reg_ok_def settleAll_def)
      qed
    qed
  qed
qed

lemma deliveries_reg_ok:
  assumes "reg_ok r"
  shows "reg_ok (foldl (\<lambda>r i. deliver remote walletName i r) r arrival)"
  using assms
  by (induction arrival arbitrary: r) (simp_all add: deliver_reg_ok)

lemma deliveries_pending:
  "reg_pending (foldl (\<lambda>r i. deliver remote walletName i r) r arrival)
     = filter (\<lambda>p. fst p \<notin> set arrival) (reg_pending r)"
proof (induction arrival arbitrary: r)
  case Nil
  then show ?case by simp
next
  case (Cons i arrival)
  show ?case
    using Cons.IH [of "deliver remote walletName i r"]
    by (simp add: deliver_pending conj_commute)
qed

lemma deliveries_settle:
  assumes "reg_ok r" and "fst ` set (reg_pending r) \<subseteq> set arrival"
  shows "\<exists>res. reg_outcome (foldl (\<lambda>r i. deliver remote walletName i r) r arrival) = Some res"
proof -
  let ?f = "foldl (\<lambda>r i. deliver remote walletName i r) r arrival"
  have "reg_pending ?f = []"
    using assms(2) by (auto simp: deliveries_pending filter_empty_conv)
  moreover have "reg_ok ?f" using assms(1) by (rule deliveries_reg_ok)
  ultimately show ?thesis
    by (cases "reg_outcome ?f") (auto simp: reg_ok_def)
qed

lemma registration_start:
  obtains w1 sel w2 ps where
    "startSelect env walletName
       (filter (\<lambda>a. IS_TESTNET env = (chain a \<in> set (TESTNET_CHAIN_IDENTIFIERS env))) accs) w
       = (w1, sel)"
    and "startAdds env accs
           (length (case sel of Some (Fetching a) \<Rightarrow> [(0, a, OfSelect)] | Some (Done res) \<Rightarrow> []
                    | None \<Rightarrow> ([] :: Fetch list))) w1 = (w2, ps)"
    and "registerAccounts env remote order walletName accs w =
           foldl (\<lambda>r i. deliver remote walletName i r)
             (settleAll walletName
                \<lparr>reg_wallet = (case sel of Some (Done res) \<Rightarrow> select_resume (Inr res) w2
                                | Some (Fetching a) \<Rightarrow> w2 | None \<Rightarrow> w2),
                 reg_pending = (case sel of Some (Fetching a) \<Rightarrow> [(0, a, OfSelect)]
                                | Some (Done res) \<Rightarrow> [] | None \<Rightarrow> []) @ ps,
                 reg_outcome = None\<rparr>)
             (order @ [0 ..< length ((case sel of Some (Fetching a) \<Rightarrow> [(0, a, OfSelect)]
                                      | Some (Done res) \<Rightarrow> [] | None \<Rightarrow> ([] :: Fetch list)) @ ps)])"
    and "accounts w1 = accounts w"
proof -
  let ?net = "filter (\<lambda>a. IS_TESTNET env = (chain a \<in> set (TESTNET_CHAIN_IDENTIFIERS env))) accs"
  obtain w1 sel where s: "startSelect env walletName ?net w = (w1, sel)"
    by (cases "startSelect env walletName ?net w") auto
  let ?sp = "(case sel of Some (Fetching a) \<Rightarrow> [(0, a, OfSelect)] | Some (Done res) \<Rightarrow> []
              | None \<Rightarrow> ([] :: Fetch list))"
  obtain w2 ps where a: "startAdds env accs (length ?sp) w1 = (w2, ps)"
    by (cases "startAdds env accs (length ?sp) w1") auto
  have acc: "accounts w1 = accounts w"
    using s startSelect_accounts [of env walletName ?net w] by simp
  show ?thesis
    using that [OF s a _ acc] s a by (simp add: registerAccounts_def Let_def)
qed

lemma pending_ids:
  assumes "startAdds env accs
             (length (case sel of Some (Fetching a) \<Rightarrow> [(0, a, OfSelect)] | Some (Done res) \<Rightarrow> []
                      | None \<Rightarrow> ([] :: Fetch list))) w1 = (w2, ps)"
  shows "map fst ((case sel of Some (Fetching a) \<Rightarrow> [(0, a, OfSelect)] | Some (Done res) \<Rightarrow> []
                   | None \<Rightarrow> ([] :: Fetch list)) @ ps)
           = [0 ..< length ((case sel of Some (Fetching a) \<Rightarrow> [(0, a, OfSelect)]
                             | Some (Done res) \<Rightarrow> [] | None \<Rightarrow> ([] :: Fetch list)) @ ps)]"
proof -
  let ?sp = "(case sel of Some (Fetching a) \<Rightarrow> [(0, a, OfSelect)] | Some (Done res) \<Rightarrow> []
              | None \<Rightarrow> ([] :: Fetch list))"
  have ps: "map fst ps = [length ?sp ..< length ?sp + length ps]"
    using startAdds_ids [of env accs "length ?sp" w1] assms by simp
  have "length ?sp = 0 \<or> (\<exists>a. ?sp = [(0, a, OfSelect)])"
    by (auto split: option.splits AddStart.splits)
  then show ?thesis
  proof
    assume "length ?sp = 0"
    then show ?thesis using ps by simp
  next
    assume "\<exists>a. ?sp = [(0, a, OfSelect)]"
    then obtain a where sp: "?sp = [(0, a, OfSelect)]" by blast
    have "[0 ..< Suc (length ps)] = 0 # [Suc 0 ..< Suc (length ps)]"
      by (subst upt_rec) simp
    then show ?thesis using ps sp by simp
  qed
qed

lemma registerAccounts_settles:
  "\<exists>res. reg_outcome (registerAccounts env remote order walletName accs w) = Some res"
proof -
  obtain w1 sel w2 ps where
    a: "startAdds env accs
           (length (case sel of Some (Fetching a) \<Rightarrow> [(0, a, OfSelect)] | Some (Done res) \<Rightarrow> []
                    | None \<Rightarrow> ([] :: Fetch list))) w1 = (w2, ps)"
    and r: "registerAccounts env remote order walletName accs w =
           foldl (\<lambda>r i. deliver remote walletName i r)
             (settleAll walletName
                \<lparr>reg_wallet = (case sel of Some (Done res) \<Rightarrow> select_resume (Inr res) w2
                                | Some (Fetching a) \<Rightarrow> w2 | None \<Rightarrow> w2),
                 reg_pending = (case sel of Some (Fetching a) \<Rightarrow> [(0, a, OfSelect)]
                                | Some (Done res) \<Rightarrow> [] | None \<Rightarrow> []) @ ps,
                 reg_outcome = None\<rparr>)
             (order @ [0 ..< length ((case sel of Some (Fetching a) \<Rightarrow> [(0, a, OfSelect)]
                                      | Some (Done res) \<Rightarrow> [] | None \<Rightarrow> ([] :: Fetch list)) @ ps)])"
    by (rule registration_start [of env walletName accs w remote order])
  let ?sp = "(case sel of Some (Fetching a) \<Rightarrow> [(0, a, OfSelect)] | Some (Done res) \<Rightarrow> []
              | None \<Rightarrow> ([] :: Fetch list))"
  let ?r0 = "\<lparr>reg_wallet = (case sel of Some (Done res) \<Rightarrow> select_resume (Inr res) w2
                                | Some (Fetching a) \<Rightarrow> w2 | None \<Rightarrow> w2),
              reg_pending = ?sp @ ps, reg_outcome = None\<rparr>"
  have ids: "map fst (?sp @ ps) = [0 ..< length (?sp @ ps)]"
    using a by (rule pending_ids)
  then have "distinct (map fst (reg_pending ?r0))" by simp
  then have ok: "reg_ok (settleAll walletName ?r0)"
    by (rule reg_ok_settleAll) simp
  have "fst ` set (reg_pending (settleAll walletName ?r0)) = set (map fst (?sp @ ps))"
    by (simp only: settleAll_pending Registration.select_convs set_map)
  also have "\<dots> \<subseteq> set (order @ [0 ..< length (?sp @ ps)])"
    unfolding ids by auto
  finally show ?thesis
    unfolding r using ok by (intro deliveries_settle)
qed

lemma install_settles:
  "\<exists>res. snd (install env remote order walletName w) = Some res"
  using registerAccounts_settles
  by (simp add: install_def Let_def split: prod.splits option.splits sum.splits)

lemma deliver_outcome_Inl:
  assumes "reg_outcome r = Some (Inl e)"
  shows "reg_outcome (deliver remote walletName i r) = Some (Inl e)"
  using assms
  by (auto simp: deliver_def Let_def settleAll_def
      split: option.splits prod.splits Owner.splits sum.splits)

lemma deliver_rejection:
  assumes "reg_ok r"
    and "rejection_pending remote r \<or> (\<exists>e. reg_outcome r = Some (Inl e))"
  shows "rejection_pending remote (deliver remote walletName i r)
         \<or> (\<exists>e. reg_outcome (deliver remote walletName i r) = Some (Inl e))"
proof (cases "\<exists>e. reg_outcome r = Some (Inl e)")
  case True
  then show ?thesis using deliver_outcome_Inl by blast
next
  case False
  then have "rejection_pending remote r" using assms(2) by blast
  then obtain p where pin: "p \<in> set (reg_pending r)" and po: "snd (snd p) = OfPromiseAll"
    and pr: "isl (remote (fst p) (fst (snd p)))"
    unfolding rejection_pending_def list_ex_iff by blast
  have ex: "list_ex (\<lambda>p. snd (snd p) = OfPromiseAll) (reg_pending r)"
    unfolding list_ex_iff using pin po by blast
  then have none: "reg_outcome r = None"
    using assms(1) False by (auto simp: reg_ok_def split: option.splits sum.splits)
  have d: "distinct (map fst (reg_pending r))" using assms(1) by (simp add: reg_ok_def)
  show ?thesis
  proof (cases "fst p = i")
    case True
    obtain j a own where p: "p = (j, a, own)" by (cases p) auto
    have "\<exists>x. x \<in> set (reg_pending r) \<and> fst x = i" using pin True by blast
    then have "List.find (\<lambda>q. fst q = i) (reg_pending r) \<noteq> None"
      by (simp only: find_None_iff not_not)
    then obtain q where f: "List.find (\<lambda>q. fst q = i) (reg_pending r) = Some q"
      by blast
    then have "q = p" using find_distinct [OF d pin] True by simp
    then have f': "List.find (\<lambda>q. fst q = i) (reg_pending r) = Some (j, a, OfPromiseAll)"
      using f p po by simp
    obtain e where e: "remote i a = Inl e"
      using pr p True by (cases "remote i a") auto
    have "add_resume (remote i a) (reg_wallet r) = (reg_wallet r, Inl e)"
      using e by (simp add: add_resume_def)
    then have "reg_outcome (deliver remote walletName i r) = Some (Inl e)"
      using f' none by (simp add: deliver_def Let_def)
    then show ?thesis by blast
  next
    case False
    then have "p \<in> set (reg_pending (deliver remote walletName i r))"
      using pin by (simp add: deliver_pending)
    then have "rejection_pending remote (deliver remote walletName i r)"
      unfolding rejection_pending_def list_ex_iff using po pr by blast
    then show ?thesis by blast
  qed
qed

lemma deliveries_rejection:
  assumes "reg_ok r"
    and "rejection_pending remote r \<or> (\<exists>e. reg_outcome r = Some (Inl e))"
  shows "rejection_pending remote (foldl (\<lambda>r i. deliver remote walletName i r) r arrival)
         \<or> (\<exists>e. reg_outcome (foldl (\<lambda>r i. deliver remote walletName i r) r arrival) = Some (Inl e))"
  using assms
proof (induction arrival arbitrary: r)
  case Nil
  then show ?case by simp
next
  case (Cons i arrival)
  have "reg_ok (deliver remote walletName i r)"
    using Cons.prems(1) by (rule deliver_reg_ok)
  moreover have "rejection_pending remote (deliver remote walletName i r)
         \<or> (\<exists>e. reg_outcome (deliver remote walletName i r) = Some (Inl e))"
    using Cons.prems by (rule deliver_rejection)
  ultimately show ?case
    using Cons.IH [of "deliver remote walletName i r"] by simp
qed

lemma registerAccounts_awaited_rejection:
  assumes "k \<in> set accs"
    and "IS_TESTNET env = (chain k \<in> set (TESTNET_CHAIN_IDENTIFIERS env))"
    and "find_account k w = None"
    and "\<And>i. isl (remote i (address k))"
  shows "\<exists>e. reg_outcome (registerAccounts env remote order walletName accs w) = Some (Inl e)"
proof -
  obtain w1 sel w2 ps where
    a: "startAdds env accs
           (length (case sel of Some (Fetching a) \<Rightarrow> [(0, a, OfSelect)] | Some (Done res) \<Rightarrow> []
                    | None \<Rightarrow> ([] :: Fetch list))) w1 = (w2, ps)"
    and r: "registerAccounts env remote order walletName accs w =
           foldl (\<lambda>r i. deliver remote walletName i r)
             (settleAll walletName
                \<lparr>reg_wallet = (case sel of Some (Done res) \<Rightarrow> select_resume (Inr res) w2
                                | Some (Fetching a) \<Rightarrow> w2 | None \<Rightarrow> w2),
                 reg_pending = (case sel of Some (Fetching a) \<Rightarrow> [(0, a, OfSelect)]
                                | Some (Done res) \<Rightarrow> [] | None \<Rightarrow> []) @ ps,
                 reg_outcome = None\<rparr>)
             (order @ [0 ..< length ((case sel of Some (Fetching a) \<Rightarrow> [(0, a, OfSelect)]
                                      | Some (Done res) \<Rightarrow> [] | None \<Rightarrow> ([] :: Fetch list)) @ ps)])"
    and acc: "accounts w1 = accounts w"
    by (rule registration_start [of env walletName accs w remote order])
  let ?sp = "(case sel of Some (Fetching a) \<Rightarrow> [(0, a, OfSelect)] | Some (Done res) \<Rightarrow> []
              | None \<Rightarrow> ([] :: Fetch list))"
  let ?r0 = "\<lparr>reg_wallet = (case sel of Some (Done res) \<Rightarrow> select_resume (Inr res) w2
                                | Some (Fetching a) \<Rightarrow> w2 | None \<Rightarrow> w2),
              reg_pending = ?sp @ ps, reg_outcome = None\<rparr>"
  let ?arrival = "order @ [0 ..< length (?sp @ ps)]"
  let ?f = "foldl (\<lambda>r i. deliver remote walletName i r) (settleAll walletName ?r0) ?arrival"
  have ids: "map fst (?sp @ ps) = [0 ..< length (?sp @ ps)]"
    using a by (rule pending_ids)
  then have "distinct (map fst (reg_pending ?r0))" by simp
  then have ok: "reg_ok (settleAll walletName ?r0)"
    by (rule reg_ok_settleAll) simp
  have "OrderedSet_find getKey (toHash (address k)) (accounts w1) = None"
    using assms(3) acc by (simp add: find_account_def)
  then obtain i where "(i, address k, OfPromiseAll) \<in> set (snd (startAdds env accs (length ?sp) w1))"
    using startAdds_fetches [OF assms(1) assms(2)] by blast
  then have i: "(i, address k, OfPromiseAll) \<in> set ps" using a by simp
  have ex: "list_ex (\<lambda>p. snd (snd p) = OfPromiseAll) (?sp @ ps)"
    unfolding list_ex_iff using i by (intro bexI [of _ "(i, address k, OfPromiseAll)"]) simp_all
  then have same: "settleAll walletName ?r0 = ?r0"
    by (simp add: settleAll_def)
  have "rejection_pending remote ?r0"
    unfolding rejection_pending_def list_ex_iff using i assms(4)
    by (intro bexI [of _ "(i, address k, OfPromiseAll)"]) simp_all
  then have "rejection_pending remote (settleAll walletName ?r0)" using same by simp
  then have fin: "rejection_pending remote ?f \<or> (\<exists>e. reg_outcome ?f = Some (Inl e))"
    using ok by (intro deliveries_rejection) simp_all
  have "fst ` set (reg_pending (settleAll walletName ?r0)) = set (map fst (?sp @ ps))"
    by (simp only: settleAll_pending Registration.select_convs set_map)
  also have "\<dots> \<subseteq> set ?arrival" unfolding ids by auto
  finally have "reg_pending ?f = []"
    by (auto simp: deliveries_pending filter_empty_conv)
  then have "\<not> rejection_pending remote ?f"
    by (simp add: rejection_pending_def)
  then show ?thesis using fin r by simp
qed

lemma install_awaited_rejection:
  assumes "providerFactory env walletName = Some p" and "provider_connect p = Inr u"
    and "provider_getAccounts p = Inr accs"
    and "k \<in> set accs"
    and "IS_TESTNET env = (chain k \<in> set (TESTNET_CHAIN_IDENTIFIERS env))"
    and "find_account k w = None"
    and "\<And>i. isl (remote i (address k))"
  shows "\<exists>e. snd (install env remote order walletName w) = Some (Inl e)"
proof -
  have f: "find_account k (w\<lparr>providers := Set_add walletName (providers w)\<rparr>) = None"
    using assms(6) by (simp add: find_account_def)
  have n: "0 < length accs" using assms(4) by (cases accs) auto
  show ?thesis
    using assms(1,2,3) n
      registerAccounts_awaited_rejection
        [of k accs env "w\<lparr>providers := Set_add walletName (providers w)\<rparr>" remote order walletName,
         OF assms(4) assms(5) f assms(7)]
    by (simp add: install_def chain_addProvider_def Let_def)
qed

lemma install_rollback_examples:
  "snd (install env_example (\<lambda>i a. remoteAccount env_example a) [] ''MetaMask'' wallet_returning)
     = Some (Inl \<lparr>code = Some (-32603), message = ''Internal error''\<rparr>)
   \<and> rolled_back ''MetaMask''
        (fst (install env_example (\<lambda>i a. remoteAccount env_example a) [] ''MetaMask'' wallet_returning))
   \<and> snd (install env_example (\<lambda>i a. remoteAccount env_example a) [] ''WalletConnect'' wallet_empty)
     = Some (Inl fetch_failed)
   \<and> rolled_back ''WalletConnect''
        (fst (install env_example (\<lambda>i a. remoteAccount env_example a) [] ''WalletConnect'' wallet_empty))"
  by code_simp

text \<open>
  Claim C5, at an input where the code departs from it. The provider connects and reports
  one account, in network and not yet registered. \<open>select\<close>, which is not awaited, and the
  \<open>add\<close> under \<open>Promise.all\<close> each begin a fetch of it. The remote source rejects the first
  fetch, which is the one of \<open>select\<close>, and answers the second. The registration step of
  \<open>select\<close> has thrown, but its rejection reaches no \<open>catch\<close>: \<open>Promise.all\<close> resolves,
  \<open>install\<close> resolves, and the name is among the installed provider names with its provider
  instance kept, whichever of the two answers arrives first.
\<close>

theorem install_lost_select_rejection:
  "remote_first_fetch_fails 0 (address key_example) = Inl fetch_failed
   \<and> snd (install env_one_account remote_first_fetch_fails [] ''Portis'' wallet_empty) = Some (Inr ())
   \<and> ''Portis'' \<in> set (installedProviderNames
                       (fst (install env_one_account remote_first_fetch_fails [] ''Portis'' wallet_empty)))
   \<and> ''Portis'' \<in> set (providers
                       (fst (install env_one_account remote_first_fetch_fails [] ''Portis'' wallet_empty)))
   \<and> snd (install env_one_account remote_first_fetch_fails [1] ''Portis'' wallet_empty) = Some (Inr ())
   \<and> ''Portis'' \<in> set (installedProviderNames
                       (fst (install env_one_account remote_first_fetch_fails [1] ''Portis'' wallet_empty)))"
  by code_simp

subsection \<open>clear\<close>

text \<open>
  Claim C8. From every state, \<open>clear\<close> leaves the registry empty, the active account unset
  and the installed provider names empty, and removes the persisted record: the cookie
  operation it performs is \<open>remove\<close>, not \<open>set\<close>. \<open>save\<close> leaves no record exactly when
  the three fields are all empty.
\<close>

theorem clear_empties_and_removes:
  "accounts (clear w) = [] \<and> activeAccount (clear w) = None
   \<and> installedProviderNames (clear w) = [] \<and> cookie (clear w) = None
   \<and> effects (clear w) = effects w @ [CookieRemove, AuthGetValidSession None, Publish]
   \<and> (cookie (save w) = None) =
       (activeAccount w = None \<and> accounts w = [] \<and> installedProviderNames w = [])"
  by (auto simp: clear_def save_effects save_cookie persisted_def isSet_def split: option.splits)

theorem clear_empties_and_removes_witness:
  "accounts (clear (fst (select env_example key_example wallet_empty))) = []
   \<and> activeAccount (clear (fst (select env_example key_example wallet_empty))) = None
   \<and> installedProviderNames (clear (fst (select env_example key_example wallet_empty))) = []
   \<and> cookie (clear (fst (select env_example key_example wallet_empty))) = None
   \<and> cookie (fst (select env_example key_example wallet_empty)) \<noteq> None"
proof -
  have "cookie (fst (select env_example key_example wallet_empty)) \<noteq> None"
    by code_simp
  then show ?thesis
    using clear_empties_and_removes [of "fst (select env_example key_example wallet_empty)"]
    by simp
qed

end
